theory Spec2Isabelle
  imports Complex_Main "HOL-Library.Log_Nat"
begin

section \<open>Leasing agreement service: a shallow embedding\<close>

text \<open>
  The development follows \<^verbatim>\<open>src/services/leasingAgreementService.ts\<close> and
  \<^verbatim>\<open>src/utils/validation.ts\<close>.

  Conventions of the embedding.
  \<^item> A JavaScript \<^verbatim>\<open>number\<close> that holds money is a \<open>JSNumber\<close>: an IEEE-754 double, given
    by its exact rational value, or \<^verbatim>\<open>NaN\<close>, or one of the infinities. Every arithmetic
    operation rounds its exact result to the nearest double, ties to even (\<open>fl\<close>). The two
    zeros are one value; a division by zero takes the zero as positive, and the one such
    quotient of the source is never read (see \<open>generatePaymentSchedule\<close>).
  \<^item> Counters, months and years are \<open>int\<close>: they are integers far below \<open>2^53\<close>, on which
    the double operations of the source are exact.
  \<^item> A \<^verbatim>\<open>Date\<close> object holds \<open>Some\<close> local calendar reading (year, month index 0..11,
    day of month, milliseconds since local midnight) in a zone with a fixed offset, or
    \<open>None\<close> when it is an invalid Date. \<^verbatim>\<open>Date\<close> objects that the code allocates or mutates
    live in an explicit heap.
  \<^item> A thrown value is the \<open>Inl\<close> of a sum; it may be \<^verbatim>\<open>null\<close> or \<^verbatim>\<open>undefined\<close>.
  \<^item> The log is part of the state of the transaction executor, where the claims speak of
    what is logged; the informational log lines of the pricing engine and of the schedule
    generator do not reach their results and are left out.
\<close>

subsection \<open>Numbers\<close>

datatype JSNumber = Num rat | NaN | PosInfinity | NegInfinity

definition pow2 :: "int \<Rightarrow> rat" where
  "pow2 e = power_int 2 e"

text \<open>For \<open>a > 0\<close>, the integer \<open>k\<close> with \<open>2^k \<le> a < 2^(k+1)\<close>.\<close>

definition floorLog2 :: "rat \<Rightarrow> int" where
  "floorLog2 a =
     (case quotient_of a of
        (p, q) \<Rightarrow> (let k = bitlen p - bitlen q in if pow2 k \<le> a then k else k - 1))"

definition roundHalfEven :: "rat \<Rightarrow> int" where
  "roundHalfEven r =
     (let f = \<lfloor>r\<rfloor>; d = r - of_int f
      in if d < 1 / 2 then f else if 1 / 2 < d then f + 1 else if even f then f else f + 1)"

text \<open>
  Rounding to double: 53 significant bits, the exponent of the last place at least \<open>-1074\<close>
  (below that the values are subnormal), overflow to an infinity from \<open>2^1024\<close> on.
\<close>

definition fl :: "rat \<Rightarrow> JSNumber" where
  "fl x =
     (if x = 0 then Num 0
      else
        (let a = \<bar>x\<bar>;
             e = max (floorLog2 a - 52) (- 1074);
             v = of_int (roundHalfEven (a / pow2 e)) * pow2 e
         in if pow2 1024 \<le> v then (if 0 < x then PosInfinity else NegInfinity)
            else Num (if 0 < x then v else - v)))"

fun jsMul :: "JSNumber \<Rightarrow> JSNumber \<Rightarrow> JSNumber" where
  "jsMul (Num x) (Num y) = fl (x * y)"
| "jsMul NaN b = NaN"
| "jsMul a NaN = NaN"
| "jsMul (Num x) PosInfinity = (if x = 0 then NaN else if 0 < x then PosInfinity else NegInfinity)"
| "jsMul (Num x) NegInfinity = (if x = 0 then NaN else if 0 < x then NegInfinity else PosInfinity)"
| "jsMul PosInfinity (Num y) = (if y = 0 then NaN else if 0 < y then PosInfinity else NegInfinity)"
| "jsMul NegInfinity (Num y) = (if y = 0 then NaN else if 0 < y then NegInfinity else PosInfinity)"
| "jsMul PosInfinity PosInfinity = PosInfinity"
| "jsMul PosInfinity NegInfinity = NegInfinity"
| "jsMul NegInfinity PosInfinity = NegInfinity"
| "jsMul NegInfinity NegInfinity = PosInfinity"

fun jsDiv :: "JSNumber \<Rightarrow> JSNumber \<Rightarrow> JSNumber" where
  "jsDiv (Num x) (Num y) =
     (if y = 0 then (if x = 0 then NaN else if 0 < x then PosInfinity else NegInfinity)
      else fl (x / y))"
| "jsDiv NaN b = NaN"
| "jsDiv a NaN = NaN"
| "jsDiv (Num x) PosInfinity = Num 0"
| "jsDiv (Num x) NegInfinity = Num 0"
| "jsDiv PosInfinity (Num y) = (if 0 \<le> y then PosInfinity else NegInfinity)"
| "jsDiv NegInfinity (Num y) = (if 0 \<le> y then NegInfinity else PosInfinity)"
| "jsDiv PosInfinity PosInfinity = NaN"
| "jsDiv PosInfinity NegInfinity = NaN"
| "jsDiv NegInfinity PosInfinity = NaN"
| "jsDiv NegInfinity NegInfinity = NaN"

fun jsAdd :: "JSNumber \<Rightarrow> JSNumber \<Rightarrow> JSNumber" where
  "jsAdd (Num x) (Num y) = fl (x + y)"
| "jsAdd NaN b = NaN"
| "jsAdd a NaN = NaN"
| "jsAdd (Num x) PosInfinity = PosInfinity"
| "jsAdd (Num x) NegInfinity = NegInfinity"
| "jsAdd PosInfinity (Num y) = PosInfinity"
| "jsAdd NegInfinity (Num y) = NegInfinity"
| "jsAdd PosInfinity PosInfinity = PosInfinity"
| "jsAdd PosInfinity NegInfinity = NaN"
| "jsAdd NegInfinity PosInfinity = NaN"
| "jsAdd NegInfinity NegInfinity = NegInfinity"

fun jsNeg :: "JSNumber \<Rightarrow> JSNumber" where
  "jsNeg (Num x) = Num (- x)"
| "jsNeg NaN = NaN"
| "jsNeg PosInfinity = NegInfinity"
| "jsNeg NegInfinity = PosInfinity"

definition jsSub :: "JSNumber \<Rightarrow> JSNumber \<Rightarrow> JSNumber" where
  "jsSub a b = jsAdd a (jsNeg b)"

text \<open>\<^verbatim>\<open>Math.round\<close>: the nearest integer, a tie going up; exact on every double.\<close>

fun jsRound :: "JSNumber \<Rightarrow> JSNumber" where
  "jsRound (Num x) = Num (of_int \<lfloor>x + 1 / 2\<rfloor>)"
| "jsRound NaN = NaN"
| "jsRound PosInfinity = PosInfinity"
| "jsRound NegInfinity = NegInfinity"

fun jsLess :: "JSNumber \<Rightarrow> JSNumber \<Rightarrow> bool" where
  "jsLess (Num x) (Num y) = (x < y)"
| "jsLess NaN b = False"
| "jsLess a NaN = False"
| "jsLess (Num x) PosInfinity = True"
| "jsLess (Num x) NegInfinity = False"
| "jsLess PosInfinity b = False"
| "jsLess NegInfinity (Num y) = True"
| "jsLess NegInfinity PosInfinity = True"
| "jsLess NegInfinity NegInfinity = False"

fun jsLessEq :: "JSNumber \<Rightarrow> JSNumber \<Rightarrow> bool" where
  "jsLessEq (Num x) (Num y) = (x \<le> y)"
| "jsLessEq NaN b = False"
| "jsLessEq a NaN = False"
| "jsLessEq (Num x) PosInfinity = True"
| "jsLessEq (Num x) NegInfinity = False"
| "jsLessEq PosInfinity (Num y) = False"
| "jsLessEq PosInfinity PosInfinity = True"
| "jsLessEq PosInfinity NegInfinity = False"
| "jsLessEq NegInfinity b = True"

text \<open>A number is falsy when it is a zero or \<^verbatim>\<open>NaN\<close>.\<close>

fun jsTruthy :: "JSNumber \<Rightarrow> bool" where
  "jsTruthy (Num x) = (x \<noteq> 0)"
| "jsTruthy NaN = False"
| "jsTruthy PosInfinity = True"
| "jsTruthy NegInfinity = True"

text \<open>\<^verbatim>\<open>Math.round(x * 100) / 100\<close>.\<close>

definition round2 :: "JSNumber \<Rightarrow> JSNumber" where
  "round2 x = jsDiv (jsRound (jsMul x (Num 100))) (Num 100)"

text \<open>\<^verbatim>\<open>xs.reduce((sum, x) => sum + x, 0)\<close>.\<close>

definition jsSum :: "JSNumber list \<Rightarrow> JSNumber" where
  "jsSum xs = foldl jsAdd (Num 0) xs"

text \<open>A month count as a number; \<open>None\<close> is \<^verbatim>\<open>NaN\<close>.\<close>

definition numberOf :: "int option \<Rightarrow> JSNumber" where
  "numberOf n = (case n of None \<Rightarrow> NaN | Some i \<Rightarrow> Num (of_int i))"

subsection \<open>The Date builtin\<close>

record JSDate =
  fullYear :: int
  monthIndex :: int
  dateOfMonth :: int
  msOfDay :: int

definition getFullYear :: "JSDate \<Rightarrow> int" where
  "getFullYear d = fullYear d"

definition getMonth :: "JSDate \<Rightarrow> int" where
  "getMonth d = monthIndex d"

definition getDate :: "JSDate \<Rightarrow> int" where
  "getDate d = dateOfMonth d"

definition isLeapYear :: "int \<Rightarrow> bool" where
  "isLeapYear y = (y mod 4 = 0 \<and> (y mod 100 \<noteq> 0 \<or> y mod 400 = 0))"

definition daysInMonth :: "int \<Rightarrow> int \<Rightarrow> int" where
  "daysInMonth y m =
     (if m = 1 then (if isLeapYear y then 29 else 28)
      else if m = 3 \<or> m = 5 \<or> m = 8 \<or> m = 10 then 30
      else 31)"

text \<open>
  ECMAScript's \<^verbatim>\<open>MakeDay(year, month, date)\<close> counts \<open>date - 1\<close> days from the first of the
  month, so a day past the end of the month runs into the following months and a day below 1
  into the preceding ones. \<open>normalizeDay\<close> does that carry on the calendar reading; its
  month argument is already in 0..11.
\<close>

function normalizeDay :: "int \<Rightarrow> int \<Rightarrow> int \<Rightarrow> int \<times> int \<times> int" where
  "normalizeDay y m d =
     (if d < 1 then
        (if m = 0 then normalizeDay (y - 1) 11 (d + 31)
         else normalizeDay y (m - 1) (d + daysInMonth y (m - 1)))
      else if daysInMonth y m < d then
        (if m = 11 then normalizeDay (y + 1) 0 (d - 31)
         else normalizeDay y (m + 1) (d - daysInMonth y m))
      else (y, m, d))"
  by pat_completeness auto
termination
  by (relation "measure (\<lambda>(y, m, d). if d < 1 then nat (1 - d) + 32 else nat d)")
     (auto simp: daysInMonth_def)

definition makeDate :: "int \<Rightarrow> int \<Rightarrow> int \<Rightarrow> int \<Rightarrow> JSDate" where
  "makeDate y m d ms =
     (case normalizeDay (y + m div 12) (m mod 12) d of
        (y', m', d') \<Rightarrow> \<lparr>fullYear = y', monthIndex = m', dateOfMonth = d', msOfDay = ms\<rparr>)"

definition setMonth :: "JSDate \<Rightarrow> int \<Rightarrow> JSDate" where
  "setMonth t m = makeDate (fullYear t) m (dateOfMonth t) (msOfDay t)"

definition setFullYear :: "JSDate \<Rightarrow> int \<Rightarrow> JSDate" where
  "setFullYear t y = makeDate y (monthIndex t) (dateOfMonth t) (msOfDay t)"

definition setDate :: "JSDate \<Rightarrow> int \<Rightarrow> JSDate" where
  "setDate t d = makeDate (fullYear t) (monthIndex t) d (msOfDay t)"

text \<open>
  \<^verbatim>\<open>a < b\<close> on two Dates compares their time values; on valid readings in one zone
  that is the lexicographic order of year, month, day and time of day.
\<close>

definition dateLess :: "JSDate \<Rightarrow> JSDate \<Rightarrow> bool" where
  "dateLess a b =
     (fullYear a < fullYear b \<or>
      (fullYear a = fullYear b \<and>
       (monthIndex a < monthIndex b \<or>
        (monthIndex a = monthIndex b \<and>
         (dateOfMonth a < dateOfMonth b \<or>
          (dateOfMonth a = dateOfMonth b \<and> msOfDay a < msOfDay b))))))"

definition dateLessEq :: "JSDate \<Rightarrow> JSDate \<Rightarrow> bool" where
  "dateLessEq a b = (\<not> dateLess b a)"

text \<open>\<^verbatim>\<open>new Date(now.toDateString())\<close>: the local midnight that starts the day of \<open>now\<close>.\<close>

definition startOfDay :: "JSDate \<Rightarrow> JSDate" where
  "startOfDay t = t\<lparr>msOfDay := 0\<rparr>"

definition validDate :: "JSDate \<Rightarrow> bool" where
  "validDate t =
     (0 \<le> monthIndex t \<and> monthIndex t < 12 \<and> 1 \<le> dateOfMonth t \<and>
      dateOfMonth t \<le> daysInMonth (fullYear t) (monthIndex t) \<and>
      0 \<le> msOfDay t \<and> msOfDay t < 86400000)"

subsection \<open>The heap of Date objects\<close>

text \<open>
  A reference is the address of a Date object. \<^verbatim>\<open>new Date(x)\<close> takes the next unused
  address; every object that exists has an address below \<open>nextRef\<close>. A cell holds \<open>None\<close>
  for an invalid Date.
\<close>

type_synonym ref = nat

record DateHeap =
  cells :: "ref \<Rightarrow> JSDate option"
  nextRef :: ref

definition newDate :: "DateHeap \<Rightarrow> JSDate option \<Rightarrow> DateHeap \<times> ref" where
  "newDate h v = (\<lparr>cells = (cells h)(nextRef h := v), nextRef = Suc (nextRef h)\<rparr>, nextRef h)"

definition writeDate :: "DateHeap \<Rightarrow> ref \<Rightarrow> JSDate option \<Rightarrow> DateHeap" where
  "writeDate h r v = h\<lparr>cells := (cells h)(r := v)\<rparr>"

subsection \<open>Domain types (\<^verbatim>\<open>src/types/index.ts\<close>)\<close>

datatype AgreementStatus = DRAFT | PENDING | ACTIVE | COMPLETED | CANCELLED

datatype PaymentStatus = PAYMENT_PENDING | PAYMENT_PAID | PAYMENT_OVERDUE | PAYMENT_CANCELLED

record PaymentSchedule =
  paymentEntryId :: string
  dueDate :: ref
  amount :: JSNumber
  paymentStatus :: PaymentStatus
  attemptCount :: int

text \<open>
  \<open>metadata\<close> holds the object's \<^verbatim>\<open>JSON.stringify\<close> image. The payment frequency and the
  employee type are the strings they are at run time: the TypeScript unions
  \<^verbatim>\<open>PaymentFrequency\<close> and \<^verbatim>\<open>EmployeeType\<close> are erased by the compiler.
\<close>

record LeasingAgreement =
  agreementId :: string
  employeeId :: string
  itemId :: string
  startDate :: ref
  endDate :: ref
  status :: AgreementStatus
  price :: JSNumber
  currency :: string
  companyId :: string
  paymentSchedule :: "PaymentSchedule list"
  metadata :: string
  createdAt :: ref
  updatedAt :: ref

text \<open>\<open>employeeDiscounts\<close> lists the own properties of the discount table.\<close>

record LeasingConfig =
  maxLeasingDuration :: int
  minLeasingDuration :: int
  maxPrice :: JSNumber
  supportedCurrencies :: "string list"
  employeeDiscounts :: "string \<rightharpoonup> JSNumber"
  longTermDiscount :: JSNumber
  longTermThreshold :: JSNumber

subsection \<open>Duration and payment interval\<close>

text \<open>
  The getters of an invalid Date return \<^verbatim>\<open>NaN\<close>, and so does the month count then
  (\<open>None\<close>).
\<close>

definition calculateDurationInMonths :: "JSDate option \<Rightarrow> JSDate option \<Rightarrow> int option" where
  "calculateDurationInMonths startD endD =
     (case (startD, endD) of
        (Some s, Some e) \<Rightarrow>
          (let yearDiff = getFullYear e - getFullYear s;
               monthDiff = getMonth e - getMonth s
           in Some (yearDiff * 12 + monthDiff))
      | _ \<Rightarrow> None)"

definition getIntervalMonths :: "string \<Rightarrow> int" where
  "getIntervalMonths frequency =
     (if frequency = ''MONTHLY'' then 1
      else if frequency = ''QUARTERLY'' then 3
      else if frequency = ''ANNUALLY'' then 12
      else 1)"

subsection \<open>Payment schedule generator\<close>

definition digitChar :: "nat \<Rightarrow> char" where
  "digitChar n = ''0123456789'' ! (n mod 10)"

function natToString :: "nat \<Rightarrow> string" where
  "natToString n = (if n < 10 then [digitChar n] else natToString (n div 10) @ [digitChar n])"
  by pat_completeness auto
termination
  by (relation "measure id") auto

definition intToString :: "int \<Rightarrow> string" where
  "intToString i = (if i < 0 then CHR ''-'' # natToString (nat (- i)) else natToString (nat i))"

text \<open>
  \<^verbatim>\<open>d.setMonth(d.getMonth() + n)\<close> on the value of a Date object: an invalid Date stays
  invalid.
\<close>

definition advanceMonths :: "int \<Rightarrow> JSDate option \<Rightarrow> JSDate option" where
  "advanceMonths n v = (case v of None \<Rightarrow> None | Some d \<Rightarrow> Some (setMonth d (getMonth d + n)))"

text \<open>
  The \<^verbatim>\<open>for\<close> loop of \<open>generatePaymentSchedule\<close>. \<open>currentDate\<close> is the one Date object
  the loop advances in place; each entry's \<open>dueDate\<close> is a new object holding the value
  \<open>currentDate\<close> has at that iteration.
\<close>

function paymentLoop ::
  "string \<Rightarrow> int \<Rightarrow> JSNumber \<Rightarrow> int \<Rightarrow> ref \<Rightarrow> int \<Rightarrow> JSNumber \<Rightarrow> PaymentSchedule list \<Rightarrow> DateHeap
     \<Rightarrow> PaymentSchedule list \<times> DateHeap" where
  "paymentLoop aid totalPayments paymentAmount intervalMonths currentDate i remainingAmount
       schedules h =
     (if i < totalPayments then
        (let amt = (if i = totalPayments - 1 then remainingAmount else paymentAmount);
             due = newDate h (cells h currentDate);
             entry = \<lparr>paymentEntryId = aid @ ''-payment-'' @ intToString (i + 1),
                      dueDate = snd due, amount = amt,
                      paymentStatus = PAYMENT_PENDING, attemptCount = 0\<rparr>;
             h' = writeDate (fst due) currentDate
                    (advanceMonths intervalMonths (cells (fst due) currentDate))
         in paymentLoop aid totalPayments paymentAmount intervalMonths currentDate (i + 1)
              (jsSub remainingAmount amt) (schedules @ [entry]) h')
      else (schedules, h))"
  by pat_completeness auto
termination
  by (relation "measure (\<lambda>(aid, n, p, iv, c, i, r, s, h). nat (n - i))") auto

text \<open>
  \<open>totalPayments\<close> is \<^verbatim>\<open>Math.ceil(duration / intervalMonths)\<close>: the operands are integers of
  small size, whose double quotient has the ceiling of the exact one; it is \<^verbatim>\<open>NaN\<close>
  (\<open>None\<close>) when a date is invalid, and the loop condition \<^verbatim>\<open>0 < NaN\<close> is false. When
  \<open>totalPayments\<close> is 0 the source's \<^verbatim>\<open>totalAmount / totalPayments\<close> is an infinity or
  \<^verbatim>\<open>NaN\<close>; the loop body, the only reader of \<open>paymentAmount\<close>, then never runs.
\<close>

definition generatePaymentSchedule ::
  "DateHeap \<Rightarrow> LeasingAgreement \<Rightarrow> string \<Rightarrow> PaymentSchedule list \<times> DateHeap" where
  "generatePaymentSchedule h agreement frequency =
     (let totalAmount = price agreement;
          intervalMonths = getIntervalMonths frequency;
          totalPayments =
            map_option (\<lambda>d. \<lceil>(of_int d :: rat) / of_int intervalMonths\<rceil>)
              (calculateDurationInMonths (cells h (startDate agreement))
                 (cells h (endDate agreement)));
          paymentAmount = round2 (jsDiv totalAmount (numberOf totalPayments));
          cur = newDate h (cells h (startDate agreement))
      in case totalPayments of
           None \<Rightarrow> ([], fst cur)
         | Some n \<Rightarrow>
             paymentLoop (agreementId agreement) n paymentAmount intervalMonths
               (snd cur) 0 totalAmount [] (fst cur))"

subsection \<open>Pricing engine\<close>

text \<open>
  The value of a property read from the discount table: a number, \<^verbatim>\<open>undefined\<close>, or one of
  the functions and objects every plain object inherits from \<^verbatim>\<open>Object.prototype\<close>. The
  latter are truthy and are \<^verbatim>\<open>NaN\<close> as a factor. The table is a plain object, as in
  \<^verbatim>\<open>loadConfig\<close> and in the tests.
\<close>

datatype JSValue = Undefined | NumberValue JSNumber | ObjectValue

definition objectPrototypeProperties :: "string list" where
  "objectPrototypeProperties =
     [''constructor'', ''__defineGetter__'', ''__defineSetter__'', ''hasOwnProperty'',
      ''__lookupGetter__'', ''__lookupSetter__'', ''isPrototypeOf'', ''propertyIsEnumerable'',
      ''toString'', ''valueOf'', ''__proto__'', ''toLocaleString'']"

definition getProperty :: "(string \<rightharpoonup> JSNumber) \<Rightarrow> string \<Rightarrow> JSValue" where
  "getProperty table k =
     (case table k of
        Some v \<Rightarrow> NumberValue v
      | None \<Rightarrow> if k \<in> set objectPrototypeProperties then ObjectValue else Undefined)"

text \<open>\<^verbatim>\<open>v || d\<close> and the conversion of a factor to a number.\<close>

fun orDefault :: "JSValue \<Rightarrow> JSNumber \<Rightarrow> JSValue" where
  "orDefault Undefined d = NumberValue d"
| "orDefault (NumberValue n) d = (if jsTruthy n then NumberValue n else NumberValue d)"
| "orDefault ObjectValue d = ObjectValue"

fun toNumber :: "JSValue \<Rightarrow> JSNumber" where
  "toNumber Undefined = NaN"
| "toNumber (NumberValue n) = n"
| "toNumber ObjectValue = NaN"

definition calculateLeasingCost ::
  "LeasingConfig \<Rightarrow> JSNumber \<Rightarrow> JSDate option \<Rightarrow> JSDate option \<Rightarrow> string \<Rightarrow> JSNumber" where
  "calculateLeasingCost config basePrice s e employeeType =
     (let durationMonths = numberOf (calculateDurationInMonths s e);
          longTermMultiplier =
            (if jsLessEq (longTermThreshold config) durationMonths
             then longTermDiscount config else Num 1);
          employeeMultiplier =
            orDefault (getProperty (employeeDiscounts config) employeeType) (Num 1);
          totalCost = jsMul (jsMul basePrice longTermMultiplier) (toNumber employeeMultiplier)
      in round2 totalCost)"

subsection \<open>Errors, requests and the builtins the validator calls\<close>

text \<open>
  What a promise rejects with, or a \<^verbatim>\<open>throw\<close> throws: one of the two error classes of
  \<^verbatim>\<open>src/types/index.ts\<close>, a plain \<^verbatim>\<open>Error\<close>, a \<^verbatim>\<open>TypeError\<close> of the runtime, or
  \<^verbatim>\<open>null\<close> or \<^verbatim>\<open>undefined\<close>: the interfaces of the collaborators do not restrict how their
  promises reject.
\<close>

datatype JSError =
    ValidationError string string string
  | BusinessRuleError string string string
  | Error string
  | TypeError string
  | ThrownNull
  | ThrownUndefined

text \<open>
  Reading \<^verbatim>\<open>e.message\<close>: on \<^verbatim>\<open>null\<close> and \<^verbatim>\<open>undefined\<close> the read itself throws a
  \<^verbatim>\<open>TypeError\<close> (its message is given in the wording of Node.js).
\<close>

fun readMessage :: "JSError \<Rightarrow> JSError + string" where
  "readMessage (ValidationError m f c) = Inr m"
| "readMessage (BusinessRuleError m r c) = Inr m"
| "readMessage (Error m) = Inr m"
| "readMessage (TypeError m) = Inr m"
| "readMessage ThrownNull =
     Inl (TypeError ''Cannot read properties of null (reading 'message')'')"
| "readMessage ThrownUndefined =
     Inl (TypeError ''Cannot read properties of undefined (reading 'message')'')"

record CreateAgreementRequest =
  req_employeeId :: string
  req_itemId :: string
  req_startDate :: string
  req_endDate :: string
  req_price :: JSNumber
  req_currency :: string
  req_companyId :: string
  req_paymentFrequency :: string
  req_metadata :: "string option"

text \<open>
  What the JavaScript runtime supplies: \<open>dateParse\<close> is \<^verbatim>\<open>new Date(string)\<close> (\<open>None\<close> for
  an invalid Date), \<open>numberToString\<close> is \<^verbatim>\<open>Number.prototype.toString\<close>, \<open>currentTime\<close> is
  the value of \<^verbatim>\<open>new Date()\<close>, read once per call of the validator.
\<close>

record JSEnv =
  dateParse :: "string \<Rightarrow> JSDate option"
  numberToString :: "JSNumber \<Rightarrow> string"
  currentTime :: JSDate

definition andThen :: "'e + 'a \<Rightarrow> ('a \<Rightarrow> 'e + 'b) \<Rightarrow> 'e + 'b" where
  "andThen r f = (case r of Inl e \<Rightarrow> Inl e | Inr x \<Rightarrow> f x)"

text \<open>
  A character is a UTF-16 code unit below 256, so strings range over Latin-1 text and
  \<^verbatim>\<open>length\<close> counts code units. \<^verbatim>\<open>trim\<close> strips the white space and line terminators of
  ECMAScript that lie in this range: tab, line feed, vertical tab, form feed, carriage return,
  space and the no-break space.
\<close>

definition isWhiteSpace :: "char \<Rightarrow> bool" where
  "isWhiteSpace c = (of_char c \<in> {9, 10, 11, 12, 13, 32, 160 :: nat})"

definition trim :: "string \<Rightarrow> string" where
  "trim s = rev (dropWhile isWhiteSpace (rev (dropWhile isWhiteSpace s)))"

fun startsWith :: "string \<Rightarrow> string \<Rightarrow> bool" where
  "startsWith s [] = True"
| "startsWith [] (c # t) = False"
| "startsWith (a # s) (c # t) = (a = c \<and> startsWith s t)"

fun stringIncludes :: "string \<Rightarrow> string \<Rightarrow> bool" where
  "stringIncludes [] t = (t = [])"
| "stringIncludes (a # s) t = (startsWith (a # s) t \<or> stringIncludes s t)"

subsection \<open>Validator (\<^verbatim>\<open>src/utils/validation.ts\<close>)\<close>

definition validateAndParseDate :: "JSEnv \<Rightarrow> string \<Rightarrow> string \<Rightarrow> JSError + JSDate" where
  "validateAndParseDate env dateString fieldName =
     (if trim dateString = [] then
        Inl (ValidationError (fieldName @ '' is required'') fieldName ''REQUIRED'')
      else case dateParse env dateString of
        None \<Rightarrow>
          Inl (ValidationError (fieldName @ '' must be a valid ISO date'') fieldName
                 ''INVALID_FORMAT'')
      | Some d \<Rightarrow> Inr d)"

definition validateDateRange :: "JSDate \<Rightarrow> JSDate \<Rightarrow> JSDate \<Rightarrow> JSError + unit" where
  "validateDateRange now startD endD =
     (let maxFutureDate = setFullYear now (getFullYear now + 5) in
      if dateLess startD (startOfDay now) then
        Inl (ValidationError ''Start date cannot be in the past'' ''startDate'' ''PAST_DATE'')
      else if dateLessEq endD startD then
        Inl (ValidationError ''End date must be after start date'' ''endDate'' ''INVALID_RANGE'')
      else if dateLess maxFutureDate endD then
        Inl (ValidationError ''Lease duration cannot exceed 5 years'' ''endDate''
               ''DURATION_EXCEEDED'')
      else
        (let minEndDate = setDate startD (getDate startD + 30) in
         if dateLess endD minEndDate then
           Inl (ValidationError ''Minimum lease duration is 30 days'' ''endDate''
                  ''DURATION_TOO_SHORT'')
         else Inr ()))"

text \<open>
  \<open>req_price\<close> is a number by its type, so of the \<^verbatim>\<open>INVALID_TYPE\<close> test of the source
  (\<^verbatim>\<open>typeof price !== 'number' || isNaN(price)\<close>) the \<^verbatim>\<open>NaN\<close> half remains.
\<close>

definition validatePrice :: "JSEnv \<Rightarrow> JSNumber \<Rightarrow> JSError + unit" where
  "validatePrice env p =
     (if p = NaN then
        Inl (ValidationError ''Price must be a valid number'' ''price'' ''INVALID_TYPE'')
      else if jsLessEq p (Num 0) then
        Inl (ValidationError ''Price must be greater than zero'' ''price'' ''INVALID_VALUE'')
      else if jsLess (Num 1000000) p then
        Inl (ValidationError ''Price cannot exceed $1,000,000'' ''price'' ''EXCEEDS_LIMIT'')
      else if CHR ''.'' \<in> set (numberToString env p) \<and>
              2 < length (takeWhile (\<lambda>c. c \<noteq> CHR ''.'')
                            (tl (dropWhile (\<lambda>c. c \<noteq> CHR ''.'') (numberToString env p)))) then
        Inl (ValidationError ''Price cannot have more than 2 decimal places'' ''price''
               ''INVALID_PRECISION'')
      else Inr ())"

definition validateCurrency :: "string \<Rightarrow> JSError + unit" where
  "validateCurrency c =
     (let supported = [''USD'', ''EUR'', ''GBP'', ''CAD''] in
      if c \<notin> set supported then
        Inl (ValidationError ''Currency must be one of: USD, EUR, GBP, CAD'' ''currency''
               ''UNSUPPORTED_CURRENCY'')
      else Inr ())"

definition validatePaymentFrequency :: "string \<Rightarrow> JSError + unit" where
  "validatePaymentFrequency frequency =
     (let validFrequencies = [''MONTHLY'', ''QUARTERLY'', ''ANNUALLY''] in
      if frequency \<notin> set validFrequencies then
        Inl (ValidationError ''Payment frequency must be one of: MONTHLY, QUARTERLY, ANNUALLY''
               ''paymentFrequency'' ''INVALID_FREQUENCY'')
      else Inr ())"

text \<open>The character class of \<^verbatim>\<open>/^[a-zA-Z0-9_-]+$/\<close>.\<close>

definition idPatternChar :: "char \<Rightarrow> bool" where
  "idPatternChar c =
     (let n = (of_char c :: nat) in
      (97 \<le> n \<and> n \<le> 122) \<or> (65 \<le> n \<and> n \<le> 90) \<or> (48 \<le> n \<and> n \<le> 57) \<or>
      c = CHR ''_'' \<or> c = CHR ''-'')"

definition validateIdFormat :: "string \<Rightarrow> string \<Rightarrow> JSError + unit" where
  "validateIdFormat ident fieldName =
     (if length ident < 3 \<or> 50 < length ident then
        Inl (ValidationError (fieldName @ '' must be between 3 and 50 characters'') fieldName
               ''INVALID_LENGTH'')
      else if \<not> (ident \<noteq> [] \<and> list_all idPatternChar ident) then
        Inl (ValidationError (fieldName @ '' contains invalid characters'') fieldName
               ''INVALID_FORMAT'')
      else Inr ())"

definition validateMetadata :: "string option \<Rightarrow> JSError + unit" where
  "validateMetadata md =
     (case md of
        None \<Rightarrow> Inr ()
      | Some serialized \<Rightarrow>
          if 10000 < length serialized then
            Inl (ValidationError ''Metadata size cannot exceed 10KB'' ''metadata''
                   ''SIZE_EXCEEDED'')
          else if stringIncludes serialized ''<script>'' \<or>
                  stringIncludes serialized ''javascript:'' then
            Inl (ValidationError ''Metadata contains prohibited content'' ''metadata''
                   ''PROHIBITED_CONTENT'')
          else Inr ())"

definition validateCreateAgreementRequest :: "JSEnv \<Rightarrow> CreateAgreementRequest \<Rightarrow> JSError + unit" where
  "validateCreateAgreementRequest env request =
     (if trim (req_employeeId request) = [] then
        Inl (ValidationError ''Employee ID is required'' ''employeeId'' ''REQUIRED'')
      else if trim (req_itemId request) = [] then
        Inl (ValidationError ''Item ID is required'' ''itemId'' ''REQUIRED'')
      else if trim (req_companyId request) = [] then
        Inl (ValidationError ''Company ID is required'' ''companyId'' ''REQUIRED'')
      else
        andThen (validateAndParseDate env (req_startDate request) ''startDate'') (\<lambda>startD.
        andThen (validateAndParseDate env (req_endDate request) ''endDate'') (\<lambda>endD.
        andThen (validateDateRange (currentTime env) startD endD) (\<lambda>_.
        andThen (validatePrice env (req_price request)) (\<lambda>_.
        andThen (validateCurrency (req_currency request)) (\<lambda>_.
        andThen (validatePaymentFrequency (req_paymentFrequency request)) (\<lambda>_.
        andThen (validateIdFormat (req_employeeId request) ''employeeId'') (\<lambda>_.
        andThen (validateIdFormat (req_itemId request) ''itemId'') (\<lambda>_.
        validateIdFormat (req_companyId request) ''companyId'')))))))))"

subsection \<open>Collaborators and the log\<close>

text \<open>
  The five injected services act on a world \<open>'w\<close> that the service itself never inspects.
  A call takes the world and gives its outcome (\<open>Inl\<close> when the promise rejects) and the
  world it leaves behind, whether it succeeded or not.
\<close>

type_synonym ('a, 'w) call = "'w \<Rightarrow> (JSError + 'a) \<times> 'w"

record 'w Services =
  repositorySave :: "LeasingAgreement \<Rightarrow> (LeasingAgreement, 'w) call"
  sendAgreementCreated :: "string \<Rightarrow> string \<Rightarrow> (unit, 'w) call"
  reserveItem :: "string \<Rightarrow> (bool, 'w) call"
  releaseItem :: "string \<Rightarrow> (unit, 'w) call"
  checkAvailability :: "string \<Rightarrow> (bool, 'w) call"
  createBillingRecord :: "LeasingAgreement \<Rightarrow> (string, 'w) call"
  getEmployeeType :: "string \<Rightarrow> (string, 'w) call"
  validateEmployee :: "string \<Rightarrow> string \<Rightarrow> (bool, 'w) call"

datatype LogLevel = Debug | Info | Warn | Err

record LogEntry =
  level :: LogLevel
  message :: string
  logContext :: "(string \<times> string) list"

subsection \<open>Business rules\<close>

definition validateBusinessRules ::
  "JSEnv \<Rightarrow> 'w Services \<Rightarrow> LeasingConfig \<Rightarrow> CreateAgreementRequest \<Rightarrow> (unit, 'w) call" where
  "validateBusinessRules env svc config request w =
     (case validateEmployee svc (req_employeeId request) (req_companyId request) w of
        (Inl e, w1) \<Rightarrow> (Inl e, w1)
      | (Inr isValidEmployee, w1) \<Rightarrow>
          if \<not> isValidEmployee then
            (Inl (BusinessRuleError
                    ''Employee does not exist or does not belong to specified company''
                    ''EMPLOYEE_VALIDATION'' ''INVALID_EMPLOYEE''), w1)
          else
            (case checkAvailability svc (req_itemId request) w1 of
               (Inl e, w2) \<Rightarrow> (Inl e, w2)
             | (Inr isItemAvailable, w2) \<Rightarrow>
                 if \<not> isItemAvailable then
                   (Inl (BusinessRuleError ''Requested item is not available for leasing''
                           ''ITEM_AVAILABILITY'' ''ITEM_UNAVAILABLE''), w2)
                 else if jsLess (maxPrice config) (req_price request) then
                   (Inl (BusinessRuleError
                           (''Price exceeds maximum allowed amount of '' @
                              numberToString env (maxPrice config))
                           ''PRICE_LIMIT'' ''PRICE_EXCEEDED''), w2)
                 else (Inr (), w2)))"

subsection \<open>Agreement factory\<close>

text \<open>
  \<open>newId\<close> is what \<^verbatim>\<open>generateAgreementId()\<close> returns. A date string that does not parse
  gives an invalid Date object; the factory goes on with it.
\<close>

definition createAgreementFromRequest ::
  "JSEnv \<Rightarrow> 'w Services \<Rightarrow> LeasingConfig \<Rightarrow> string \<Rightarrow> CreateAgreementRequest \<Rightarrow> DateHeap \<Rightarrow> 'w
     \<Rightarrow> (JSError + LeasingAgreement) \<times> DateHeap \<times> 'w" where
  "createAgreementFromRequest env svc config newId request h w =
     (let s = dateParse env (req_startDate request);
          e = dateParse env (req_endDate request);
          sd = newDate h s;
          ed = newDate (fst sd) e
      in case getEmployeeType svc (req_employeeId request) w of
           (Inl err, w1) \<Rightarrow> (Inl err, fst ed, w1)
         | (Inr employeeType, w1) \<Rightarrow>
             (let totalCost = calculateLeasingCost config (req_price request) s e employeeType;
                  ca = newDate (fst ed) (Some (currentTime env));
                  ua = newDate (fst ca) (Some (currentTime env));
                  tempAgreement =
                    \<lparr>agreementId = newId,
                     employeeId = req_employeeId request,
                     itemId = req_itemId request,
                     startDate = snd sd,
                     endDate = snd ed,
                     status = DRAFT,
                     price = totalCost,
                     currency = req_currency request,
                     companyId = req_companyId request,
                     paymentSchedule = [],
                     metadata = (case req_metadata request of None \<Rightarrow> ''{}'' | Some m \<Rightarrow> m),
                     createdAt = snd ca,
                     updatedAt = snd ua\<rparr>;
                  sched = generatePaymentSchedule (fst ua) tempAgreement
                            (req_paymentFrequency request)
              in (Inr (tempAgreement\<lparr>paymentSchedule := fst sched\<rparr>), snd sched, w1)))"

subsection \<open>Transaction executor\<close>

text \<open>
  \<open>operations\<close> is the array of rollback closures. \<open>transactionSteps\<close> is the body of the
  \<^verbatim>\<open>try\<close> block: it gives the outcome together with the closures registered so far, the
  world and the log. \<open>updatedRef\<close> is the Date object made by \<^verbatim>\<open>new Date()\<close> for
  \<open>updatedAt\<close>. The boolean that \<open>reserveItem\<close> resolves to is not read by the source.
  The handler of a failed notification builds its log line from
  \<^verbatim>\<open>notificationError.message\<close>; when that read throws, the handler throws, inside the
  \<^verbatim>\<open>try\<close> block.
\<close>

definition transactionSteps ::
  "'w Services \<Rightarrow> ref \<Rightarrow> LeasingAgreement \<Rightarrow> string \<Rightarrow> 'w \<Rightarrow> LogEntry list
     \<Rightarrow> (JSError + LeasingAgreement) \<times> (unit, 'w) call list \<times> 'w \<times> LogEntry list" where
  "transactionSteps svc updatedRef agreement correlationId w lg =
     (case reserveItem svc (itemId agreement) w of
        (Inl e, w1) \<Rightarrow> (Inl e, [], w1, lg)
      | (Inr reserved, w1) \<Rightarrow>
          (let operations = [] @ [releaseItem svc (itemId agreement)] in
           case repositorySave svc (agreement\<lparr>status := PENDING\<rparr>) w1 of
             (Inl e, w2) \<Rightarrow> (Inl e, operations, w2, lg)
           | (Inr savedAgreement, w2) \<Rightarrow>
               (case createBillingRecord svc savedAgreement w2 of
                  (Inl e, w3) \<Rightarrow> (Inl e, operations, w3, lg)
                | (Inr billingId, w3) \<Rightarrow>
                    (let lg1 = lg @ [\<lparr>level = Info, message = ''Billing record created'',
                                      logContext = [(''agreementId'', agreementId savedAgreement),
                                                    (''billingId'', billingId)]\<rparr>]
                     in case sendAgreementCreated svc (employeeId savedAgreement)
                               (agreementId savedAgreement) w3 of
                          (notified, w4) \<Rightarrow>
                            (let handled =
                                   (case notified of
                                      Inl notificationError \<Rightarrow>
                                        (case readMessage notificationError of
                                           Inl thrown \<Rightarrow> Inl thrown
                                         | Inr msg \<Rightarrow>
                                             Inr (lg1 @
                                               [\<lparr>level = Warn,
                                                 message =
                                                   ''Notification failed but agreement created'',
                                                 logContext =
                                                   [(''correlationId'', correlationId),
                                                    (''error'', msg)]\<rparr>]))
                                    | Inr u \<Rightarrow> Inr lg1)
                             in case handled of
                                  Inl thrown \<Rightarrow> (Inl thrown, operations, w4, lg1)
                                | Inr lg2 \<Rightarrow>
                                    (case repositorySave svc
                                            (savedAgreement\<lparr>status := ACTIVE,
                                               updatedAt := updatedRef\<rparr>) w4 of
                                       (Inl e, w5) \<Rightarrow> (Inl e, operations, w5, lg2)
                                     | (Inr finalAgreement, w5) \<Rightarrow>
                                         (Inr finalAgreement, operations, w5,
                                          lg2 @ [\<lparr>level = Info,
                                                  message = ''Agreement processed successfully'',
                                                  logContext =
                                                    [(''correlationId'', correlationId),
                                                     (''agreementId'',
                                                      agreementId finalAgreement)]\<rparr>])))))))"

text \<open>
  The \<^verbatim>\<open>for\<close> loop of the \<^verbatim>\<open>catch\<close> block. A rejected rollback is logged with
  \<^verbatim>\<open>rollbackError.message\<close>; when that read throws, the loop ends there with what was
  thrown (\<open>Some\<close>), and the closures after it are not called.
\<close>

fun rollbackLoop ::
  "string \<Rightarrow> (unit, 'w) call list \<Rightarrow> 'w \<Rightarrow> LogEntry list
     \<Rightarrow> JSError option \<times> 'w \<times> LogEntry list" where
  "rollbackLoop correlationId [] w lg = (None, w, lg)"
| "rollbackLoop correlationId (rollback # rest) w lg =
     (case rollback w of
        (Inl rollbackError, w') \<Rightarrow>
          (case readMessage rollbackError of
             Inl thrown \<Rightarrow> (Some thrown, w', lg)
           | Inr msg \<Rightarrow>
               rollbackLoop correlationId rest w'
                 (lg @ [\<lparr>level = Err, message = ''Rollback failed'',
                         logContext = [(''correlationId'', correlationId),
                                       (''error'', msg)]\<rparr>]))
      | (Inr u, w') \<Rightarrow> rollbackLoop correlationId rest w' lg)"

text \<open>
  The \<^verbatim>\<open>catch\<close> block: the rollback loop over the reversed array, then \<^verbatim>\<open>throw error\<close>,
  unless the loop has thrown before.
\<close>

definition compensate ::
  "string \<Rightarrow> (unit, 'w) call list \<Rightarrow> JSError \<Rightarrow> 'w \<Rightarrow> LogEntry list
     \<Rightarrow> (JSError + LeasingAgreement) \<times> 'w \<times> LogEntry list" where
  "compensate correlationId operations err w lg =
     (case rollbackLoop correlationId (rev operations) w lg of
        (Some thrown, w', lg') \<Rightarrow> (Inl thrown, w', lg')
      | (None, w', lg') \<Rightarrow> (Inl err, w', lg'))"

definition executeAgreementTransaction ::
  "'w Services \<Rightarrow> ref \<Rightarrow> LeasingAgreement \<Rightarrow> string \<Rightarrow> 'w \<Rightarrow> LogEntry list
     \<Rightarrow> (JSError + LeasingAgreement) \<times> 'w \<times> LogEntry list" where
  "executeAgreementTransaction svc updatedRef agreement correlationId w lg =
     (case transactionSteps svc updatedRef agreement correlationId w lg of
        (Inr finalAgreement, operations, w', lg') \<Rightarrow> (Inr finalAgreement, w', lg')
      | (Inl err, operations, w', lg') \<Rightarrow> compensate correlationId operations err w' lg')"

subsection \<open>Statement vocabulary\<close>

text \<open>One pass of the loop of \<open>generatePaymentSchedule\<close>: the entry it pushes, the heap it leaves.\<close>

definition loopEntry ::
  "string \<Rightarrow> int \<Rightarrow> JSNumber \<Rightarrow> int \<Rightarrow> JSNumber \<Rightarrow> DateHeap \<Rightarrow> PaymentSchedule" where
  "loopEntry aid n p i r h =
     \<lparr>paymentEntryId = aid @ ''-payment-'' @ intToString (i + 1),
      dueDate = nextRef h, amount = (if i = n - 1 then r else p),
      paymentStatus = PAYMENT_PENDING, attemptCount = 0\<rparr>"

definition loopHeap :: "int \<Rightarrow> ref \<Rightarrow> DateHeap \<Rightarrow> DateHeap" where
  "loopHeap iv cur h =
     writeDate (fst (newDate h (cells h cur))) cur
       (advanceMonths iv (cells (fst (newDate h (cells h cur))) cur))"

text \<open>The value of \<^verbatim>\<open>totalPayments\<close>; \<open>None\<close> is \<^verbatim>\<open>NaN\<close>.\<close>

definition totalPaymentsOf :: "DateHeap \<Rightarrow> LeasingAgreement \<Rightarrow> string \<Rightarrow> int option" where
  "totalPaymentsOf h agreement frequency =
     map_option (\<lambda>d. \<lceil>(of_int d :: rat) / of_int (getIntervalMonths frequency)\<rceil>)
       (calculateDurationInMonths (cells h (startDate agreement)) (cells h (endDate agreement)))"

text \<open>The number of passes of the loop.\<close>

definition paymentCount :: "DateHeap \<Rightarrow> LeasingAgreement \<Rightarrow> string \<Rightarrow> nat" where
  "paymentCount h agreement frequency =
     (case totalPaymentsOf h agreement frequency of None \<Rightarrow> 0 | Some n \<Rightarrow> nat n)"


definition specLongTermMultiplier ::
  "LeasingConfig \<Rightarrow> JSDate option \<Rightarrow> JSDate option \<Rightarrow> JSNumber" where
  "specLongTermMultiplier config s e =
     (case (s, e) of
        (Some a, Some b) \<Rightarrow>
          if jsLessEq (longTermThreshold config)
               (Num (of_int ((fullYear b - fullYear a) * 12 + (monthIndex b - monthIndex a))))
          then longTermDiscount config else Num 1
      | _ \<Rightarrow> Num 1)"


definition lookedUpMultiplier :: "LeasingConfig \<Rightarrow> string \<Rightarrow> JSNumber" where
  "lookedUpMultiplier config tier =
     (case employeeDiscounts config tier of
        Some v \<Rightarrow> if v = Num 0 \<or> v = NaN then Num 1 else v
      | None \<Rightarrow> if tier \<in> set objectPrototypeProperties then NaN else Num 1)"




text \<open>A compensator that leaves its tag in a trace and then resolves or rejects as told.\<close>

definition tracing :: "'t \<times> (JSError + unit) \<Rightarrow> (unit, 't list) call" where
  "tracing c = (\<lambda>w. (snd c, w @ [fst c]))"

text \<open>
  The log line of a failed rollback with message \<open>msg\<close>, a thrown value whose
  \<^verbatim>\<open>message\<close> can be read and that message, the messages of the errors among a list of
  outcomes, and the error of the price ceiling.
\<close>

definition rollbackFailed :: "string \<Rightarrow> string \<Rightarrow> LogEntry" where
  "rollbackFailed cid msg =
     \<lparr>level = Err, message = ''Rollback failed'',
      logContext = [(''correlationId'', cid), (''error'', msg)]\<rparr>"

fun hasMessage :: "JSError \<Rightarrow> bool" where
  "hasMessage ThrownNull = False"
| "hasMessage ThrownUndefined = False"
| "hasMessage e = True"

fun messageOf :: "JSError \<Rightarrow> string" where
  "messageOf (ValidationError m f c) = m"
| "messageOf (BusinessRuleError m r c) = m"
| "messageOf (Error m) = m"
| "messageOf (TypeError m) = m"
| "messageOf ThrownNull = []"
| "messageOf ThrownUndefined = []"

definition failureMessages :: "(JSError + unit) list \<Rightarrow> string list" where
  "failureMessages rs = concat (map (\<lambda>r. case r of Inl e \<Rightarrow> [messageOf e] | Inr u \<Rightarrow> []) rs)"

definition priceExceeded :: "JSEnv \<Rightarrow> LeasingConfig \<Rightarrow> JSError" where
  "priceExceeded env config =
     BusinessRuleError
       (''Price exceeds maximum allowed amount of '' @ numberToString env (maxPrice config))
       ''PRICE_LIMIT'' ''PRICE_EXCEEDED''"

subsection \<open>Concrete inputs\<close>

text \<open>The collaborators, configuration and data of \<^verbatim>\<open>tests/leasingAgreementService.test.ts\<close>.\<close>

record MockWorld =
  agreements :: "string \<rightharpoonup> LeasingAgreement"
  sentNotifications :: "(string \<times> string) list"
  reservedItems :: "string set"
  availableItems :: "string set"
  billingRecords :: "(string \<times> string) list"
  employees :: "string \<rightharpoonup> string \<times> string"

definition mockServices :: "MockWorld Services" where
  "mockServices =
     \<lparr>repositorySave = (\<lambda>a w. (Inr a, w\<lparr>agreements := (agreements w)(agreementId a \<mapsto> a)\<rparr>)),
      sendAgreementCreated =
        (\<lambda>e a w. (Inr (), w\<lparr>sentNotifications := sentNotifications w @ [(e, a)]\<rparr>)),
      reserveItem =
        (\<lambda>i w. if i \<in> availableItems w \<and> i \<notin> reservedItems w
                then (Inr True, w\<lparr>reservedItems := insert i (reservedItems w)\<rparr>)
                else (Inr False, w)),
      releaseItem = (\<lambda>i w. (Inr (), w\<lparr>reservedItems := reservedItems w - {i}\<rparr>)),
      checkAvailability = (\<lambda>i w. (Inr (i \<in> availableItems w \<and> i \<notin> reservedItems w), w)),
      createBillingRecord =
        (\<lambda>a w. (Inr (''bill-'' @ agreementId a),
                 w\<lparr>billingRecords :=
                     billingRecords w @ [(agreementId a, ''bill-'' @ agreementId a)]\<rparr>)),
      getEmployeeType =
        (\<lambda>e w. (Inr (case employees w e of None \<Rightarrow> ''STANDARD'' | Some (t, c) \<Rightarrow> t), w)),
      validateEmployee =
        (\<lambda>e c w. (Inr (case employees w e of None \<Rightarrow> False | Some (t, c') \<Rightarrow> c' = c), w))\<rparr>"

definition billingFails :: "MockWorld Services" where
  "billingFails = mockServices\<lparr>createBillingRecord := (\<lambda>a w. (Inl (Error ''Billing failed''), w))\<rparr>"

definition notificationFails :: "MockWorld Services" where
  "notificationFails =
     mockServices\<lparr>sendAgreementCreated := (\<lambda>e a w. (Inl (Error ''Mail server down''), w))\<rparr>"

text \<open>
  A notification service whose promise rejects with \<^verbatim>\<open>null\<close>, and an inventory whose
  \<open>releaseItem\<close> rejects with \<^verbatim>\<open>null\<close> while billing fails.
\<close>

definition notificationRejectsNull :: "MockWorld Services" where
  "notificationRejectsNull =
     mockServices\<lparr>sendAgreementCreated := (\<lambda>e a w. (Inl ThrownNull, w))\<rparr>"

definition releaseRejectsNull :: "MockWorld Services" where
  "releaseRejectsNull = billingFails\<lparr>releaseItem := (\<lambda>i w. (Inl ThrownNull, w))\<rparr>"

definition mockWorld :: MockWorld where
  "mockWorld =
     \<lparr>agreements = Map.empty, sentNotifications = [], reservedItems = {},
      availableItems = {''item1'', ''item2'', ''item3''}, billingRecords = [],
      employees = [''emp1'' \<mapsto> (''STANDARD'', ''comp1''), ''emp2'' \<mapsto> (''PREMIUM'', ''comp1''),
                   ''emp3'' \<mapsto> (''VIP'', ''comp2'')]\<rparr>"

text \<open>The literals \<^verbatim>\<open>0.9\<close> and \<^verbatim>\<open>0.8\<close> are the doubles nearest to 9/10 and 8/10.\<close>

definition testConfig :: LeasingConfig where
  "testConfig =
     \<lparr>maxLeasingDuration = 60, minLeasingDuration = 1, maxPrice = Num 1000000,
      supportedCurrencies = [''USD'', ''EUR'', ''GBP'', ''CAD''],
      employeeDiscounts =
        [''STANDARD'' \<mapsto> Num 1, ''PREMIUM'' \<mapsto> fl (9 / 10), ''VIP'' \<mapsto> fl (8 / 10)],
      longTermDiscount = fl (8 / 10), longTermThreshold = Num 12\<rparr>"

definition dateAt :: "int \<Rightarrow> int \<Rightarrow> int \<Rightarrow> JSDate" where
  "dateAt y m d = \<lparr>fullYear = y, monthIndex = m, dateOfMonth = d, msOfDay = 0\<rparr>"

text \<open>A heap that holds two Date objects, at references 0 and 1.\<close>

definition twoDates :: "JSDate \<Rightarrow> JSDate \<Rightarrow> DateHeap" where
  "twoDates s e = \<lparr>cells = (\<lambda>r. if r = 0 then Some s else Some e), nextRef = 2\<rparr>"

definition emptyHeap :: DateHeap where
  "emptyHeap = \<lparr>cells = (\<lambda>r. None), nextRef = 0\<rparr>"

definition testAgreement :: "JSNumber \<Rightarrow> LeasingAgreement" where
  "testAgreement p =
     \<lparr>agreementId = ''test-id'', employeeId = ''emp1'', itemId = ''item1'', startDate = 0,
      endDate = 1, status = DRAFT, price = p, currency = ''USD'', companyId = ''comp1'',
      paymentSchedule = [], metadata = ''{}'', createdAt = 0, updatedAt = 1\<rparr>"

text \<open>
  A runtime whose clock reads 1 January 2025, 00:00, in a zone at offset 0; its \<open>dateParse\<close>
  and \<open>numberToString\<close> are tabulated for the strings and numbers used below.
\<close>

definition testEnv :: JSEnv where
  "testEnv =
     \<lparr>dateParse =
        map_of [(''2025-01-01T00:00:00.000Z'', dateAt 2025 0 1),
                (''2025-01-31T00:00:00.000Z'', dateAt 2025 0 31),
                (''2025-07-01T00:00:00.000Z'', dateAt 2025 6 1),
                (''2025-12-01T00:00:00.000Z'', dateAt 2025 11 1)],
      numberToString = (\<lambda>x. if x = Num 50 then ''50'' else if x = Num 100 then ''100''
                              else if x = Num 1000 then ''1000''
                              else if x = Num 1000000 then ''1000000'' else ''NaN''),
      currentTime = dateAt 2025 0 1\<rparr>"

definition testRequest :: "string \<Rightarrow> string \<Rightarrow> CreateAgreementRequest" where
  "testRequest s e =
     \<lparr>req_employeeId = ''emp1'', req_itemId = ''item1'', req_startDate = s, req_endDate = e,
      req_price = Num 100, req_currency = ''USD'', req_companyId = ''comp1'',
      req_paymentFrequency = ''MONTHLY'', req_metadata = None\<rparr>"

text \<open>The serialisation of a metadata object that carries a script tag.\<close>

definition scriptMetadata :: string where
  \<open>scriptMetadata = ''{"note":"<script>alert(1)</script>"}''\<close>

section \<open>Rounding to double\<close>

lemma pow2_pos: "0 < pow2 e"
  by (simp add: pow2_def)

lemma pow2_add: "pow2 (a + b) = pow2 a * pow2 b"
  by (simp add: pow2_def power_int_add)

lemma pow2_mono: "a \<le> b \<Longrightarrow> pow2 a \<le> pow2 b"
  by (simp add: pow2_def power_int_increasing)

lemma pow2_strict_mono: "a < b \<Longrightarrow> pow2 a < pow2 b"
  by (simp add: pow2_def power_int_strict_increasing)

lemma pow2_nat: "0 \<le> e \<Longrightarrow> pow2 e = 2 ^ nat e"
  by (simp add: pow2_def power_int_def)

lemma bitlen_pow2_bounds:
  assumes "0 < p"
  shows "pow2 (bitlen p - 1) \<le> of_int p \<and> of_int p < pow2 (bitlen p)"
proof -
  from assms have b: "2 ^ nat (bitlen p - 1) \<le> p \<and> p < 2 ^ nat (bitlen p)"
    by (rule bitlen_bounds)
  have ge1: "1 \<le> bitlen p" using assms by (auto simp: bitlen_alt_def)
  have "(of_int (2 ^ nat (bitlen p - 1)) :: rat) \<le> of_int p"
    using b by (simp only: of_int_le_iff)
  moreover have "(of_int p :: rat) < of_int (2 ^ nat (bitlen p))"
    using b by (simp only: of_int_less_iff)
  ultimately show ?thesis using ge1 by (simp add: pow2_nat)
qed

lemma floorLog2_bounds:
  assumes "0 < a"
  shows "pow2 (floorLog2 a) \<le> a \<and> a < pow2 (floorLog2 a + 1)"
proof -
  obtain p q where pq: "quotient_of a = (p, q)" by (cases "quotient_of a")
  then have q: "0 < q" by (rule quotient_of_denom_pos)
  from pq have a: "a = of_int p / of_int q" by (rule quotient_of_div)
  have p: "0 < p" using assms a q by (simp add: zero_less_divide_iff)
  let ?k = "bitlen p - bitlen q"
  note bp = bitlen_pow2_bounds[OF p] and bq = bitlen_pow2_bounds[OF q]
  have qpos: "(0::rat) < of_int q" using q by simp
  have up: "a < pow2 (?k + 1)"
  proof -
    have "of_int p < pow2 (bitlen p)" using bp by simp
    also have "\<dots> = pow2 (?k + 1) * pow2 (bitlen q - 1)"
      by (simp add: pow2_add[symmetric])
    also have "\<dots> \<le> pow2 (?k + 1) * of_int q"
      using bq pow2_pos[of "?k + 1"] by (simp add: mult_left_mono)
    finally show ?thesis using qpos by (simp add: a pos_divide_less_eq)
  qed
  have low: "pow2 (?k - 1) < a"
  proof -
    have "pow2 (?k - 1) * of_int q < pow2 (?k - 1) * pow2 (bitlen q)"
      using bq pow2_pos[of "?k - 1"] by (simp add: mult_strict_left_mono)
    also have "\<dots> = pow2 (bitlen p - 1)"
      by (simp add: pow2_add[symmetric])
    also have "\<dots> \<le> of_int p" using bp by simp
    finally show ?thesis using qpos by (simp add: a pos_less_divide_eq)
  qed
  show ?thesis
  proof (cases "pow2 ?k \<le> a")
    case True
    then have "floorLog2 a = ?k" by (simp add: floorLog2_def pq Let_def)
    with True up show ?thesis by simp
  next
    case False
    then have "floorLog2 a = ?k - 1" by (simp add: floorLog2_def pq Let_def)
    with False low show ?thesis by simp
  qed
qed

lemma floorLog2_unique:
  assumes "0 < a" "pow2 k \<le> a" "a < pow2 (k + 1)"
  shows "floorLog2 a = k"
proof (rule ccontr)
  assume ne: "floorLog2 a \<noteq> k"
  note b = floorLog2_bounds[OF assms(1)]
  show False
  proof (cases "floorLog2 a < k")
    case True
    then have "pow2 (floorLog2 a + 1) \<le> pow2 k" by (intro pow2_mono) simp
    with b assms(2) show False by simp
  next
    case False
    with ne have "pow2 (k + 1) \<le> pow2 (floorLog2 a)" by (intro pow2_mono) simp
    with b assms(3) show False by simp
  qed
qed

lemma roundHalfEven_nontie:
  assumes "of_int m - 1 / 2 < r" "r < of_int m + 1 / 2"
  shows "roundHalfEven r = m"
proof (cases "r < of_int m")
  case True
  then have f: "\<lfloor>r\<rfloor> = m - 1" using assms by (intro floor_unique) simp_all
  show ?thesis using assms by (simp add: roundHalfEven_def f Let_def)
next
  case False
  then have f: "\<lfloor>r\<rfloor> = m" using assms by (intro floor_unique) simp_all
  show ?thesis using assms False by (simp add: roundHalfEven_def f Let_def)
qed


lemma roundHalfEven_tie_below:
  assumes "even m" and "r = of_int m + 1 / 2"
  shows "roundHalfEven r = m"
proof -
  have f: "\<lfloor>r\<rfloor> = m" using assms(2) by (intro floor_unique) simp_all
  have d: "r - of_int m = 1 / 2" using assms(2) by simp
  show ?thesis unfolding roundHalfEven_def Let_def f d using assms(1) by simp
qed

lemma roundHalfEven_tie_above:
  assumes "even m" and "r = of_int m - 1 / 2"
  shows "roundHalfEven r = m"
proof -
  have f: "\<lfloor>r\<rfloor> = m - 1" using assms(2) by (intro floor_unique) simp_all
  have d: "r - of_int (m - 1) = 1 / 2" using assms(2) by simp
  show ?thesis unfolding roundHalfEven_def Let_def f d using assms(1) by simp
qed

text \<open>
  Evaluation rules for the normal range: the exponent of the last place and the mantissa are
  given; the scaled value lies strictly within half a unit of the mantissa, or is a tie that
  goes to the even mantissa.
\<close>

lemma fl_round:
  assumes "0 < x" and "pow2 (e + 52) \<le> x" and "x < pow2 (e + 53)"
    and "- 1074 \<le> e" and "e \<le> 970"
    and "roundHalfEven (x / pow2 e) = m" and "of_int m \<le> x / pow2 e + 1 / 2"
  shows "fl x = Num (of_int m * pow2 e)"
proof -
  have lg: "floorLog2 x = e + 52"
    using assms(1,2,3) by (intro floorLog2_unique) (simp_all add: add.assoc)
  have ab: "\<bar>x\<bar> = x" using assms(1) by simp
  have ex: "max (floorLog2 x - 52) (- 1074) = e"
    using assms(4) lg by simp
  note rd = assms(6)
  have "x / pow2 e < pow2 53"
    using assms(3) pow2_pos[of e] by (simp add: pow2_add pos_divide_less_eq mult.commute)
  with assms(7) have "of_int m < (pow2 53 + 1 / 2 :: rat)" by simp
  then have "(of_int m :: rat) < of_int (2 ^ 53) + 1 / 2" by (simp add: pow2_def)
  then have "m \<le> 2 ^ 53" by linarith
  then have "(of_int m :: rat) \<le> pow2 53"
    by (metis of_int_le_iff of_int_numeral of_int_power pow2_def power_int_numeral)
  then have "of_int m * pow2 e \<le> pow2 53 * pow2 e"
    using pow2_pos[of e] by (simp add: mult_right_mono)
  also have "\<dots> = pow2 (53 + e)" by (simp add: pow2_add)
  also have "\<dots> < pow2 1024" using assms(5) by (intro pow2_strict_mono) simp
  finally have no: "\<not> pow2 1024 \<le> of_int m * pow2 e" by simp
  show ?thesis
    using assms(1) no by (simp add: fl_def Let_def ab ex rd)
qed

lemma fl_normal:
  assumes "0 < x" and "pow2 (e + 52) \<le> x" and "x < pow2 (e + 53)"
    and "- 1074 \<le> e" and "e \<le> 970"
    and "of_int m - 1 / 2 < x / pow2 e" and "x / pow2 e < of_int m + 1 / 2"
  shows "fl x = Num (of_int m * pow2 e)"
proof (rule fl_round[OF assms(1-5)])
  show "roundHalfEven (x / pow2 e) = m" using assms(6,7) by (rule roundHalfEven_nontie)
  show "of_int m \<le> x / pow2 e + 1 / 2" using assms(6) by simp
qed

lemma fl_tie_below:
  assumes "0 < x" and "pow2 (e + 52) \<le> x" and "x < pow2 (e + 53)"
    and "- 1074 \<le> e" and "e \<le> 970"
    and "even m" and "x / pow2 e = of_int m + 1 / 2"
  shows "fl x = Num (of_int m * pow2 e)"
proof (rule fl_round[OF assms(1-5)])
  show "roundHalfEven (x / pow2 e) = m" using assms(6,7) by (rule roundHalfEven_tie_below)
  show "of_int m \<le> x / pow2 e + 1 / 2" using assms(7) by simp
qed

lemma fl_tie_above:
  assumes "0 < x" and "pow2 (e + 52) \<le> x" and "x < pow2 (e + 53)"
    and "- 1074 \<le> e" and "e \<le> 970"
    and "even m" and "x / pow2 e = of_int m - 1 / 2"
  shows "fl x = Num (of_int m * pow2 e)"
proof (rule fl_round[OF assms(1-5)])
  show "roundHalfEven (x / pow2 e) = m" using assms(6,7) by (rule roundHalfEven_tie_above)
  show "of_int m \<le> x / pow2 e + 1 / 2" using assms(7) by simp
qed

lemma fl_int:
  assumes "0 < n" and "n < 2 ^ 53"
  shows "fl (of_int n) = Num (of_int n)"
proof -
  let ?x = "of_int n :: rat"
  let ?k = "floorLog2 ?x"
  have x: "0 < ?x" using assms(1) by simp
  note b = floorLog2_bounds[OF x]
  have k0: "0 \<le> ?k"
  proof (rule ccontr)
    assume "\<not> 0 \<le> ?k"
    then have "pow2 (?k + 1) \<le> pow2 0" by (intro pow2_mono) simp
    moreover have "(1::rat) \<le> ?x" using assms(1) by simp
    ultimately show False using b by (simp add: pow2_def)
  qed
  have k52: "?k \<le> 52"
  proof (rule ccontr)
    assume "\<not> ?k \<le> 52"
    then have "pow2 53 \<le> pow2 ?k" by (intro pow2_mono) simp
    moreover have "?x < of_int (2 ^ 53)" using assms(2) by (simp only: of_int_less_iff)
    ultimately show False using b by (simp add: pow2_def)
  qed
  let ?e = "?k - 52"
  let ?m = "n * 2 ^ nat (52 - ?k)"
  have m: "(of_int ?m :: rat) = ?x * pow2 (52 - ?k)"
    using k52 by (simp add: pow2_nat)
  have inv: "pow2 (52 - ?k) * pow2 ?e = 1"
  proof -
    have "pow2 (52 - ?k) * pow2 ?e = pow2 ((52 - ?k) + ?e)" by (rule pow2_add[symmetric])
    also have "(52 - ?k) + ?e = 0" by simp
    finally show ?thesis by (simp add: pow2_def)
  qed
  have q: "?x / pow2 ?e = of_int ?m"
  proof -
    have "?x = ?x * (pow2 (52 - ?k) * pow2 ?e)" by (simp only: inv mult_1_right)
    then have "?x = of_int ?m * pow2 ?e" by (simp only: m mult.assoc)
    then show ?thesis using pow2_pos[of ?e] by (simp add: divide_eq_eq)
  qed
  have "fl ?x = Num (of_int ?m * pow2 ?e)"
  proof (rule fl_normal)
    show "0 < ?x" by (rule x)
    show "pow2 (?e + 52) \<le> ?x" using b by simp
    show "?x < pow2 (?e + 53)" using b by (simp add: add.commute)
    show "- 1074 \<le> ?e" using k0 by simp
    show "?e \<le> 970" using k52 by simp
    show "of_int ?m - 1 / 2 < ?x / pow2 ?e" unfolding q by simp
    show "?x / pow2 ?e < of_int ?m + 1 / 2" unfolding q by simp
  qed
  also have "of_int ?m * pow2 ?e = ?x"
    by (simp only: m mult.assoc inv mult_1_right)
  finally show ?thesis .
qed

lemma fl_zero [simp]: "fl 0 = Num 0"
  by (simp add: fl_def)

lemma fl_one [simp]: "fl 1 = Num 1"
  using fl_int[of 1] by simp

lemma fl_numeral [simp]:
  "numeral w < (9007199254740992::int) \<Longrightarrow> fl (numeral w) = Num (numeral w)"
  using fl_int[of "numeral w"] by simp


lemma jsRound_eval:
  assumes "of_int k \<le> x + 1 / 2" and "x + 1 / 2 < of_int k + 1"
  shows "jsRound (Num x) = Num (of_int k)"
proof -
  have "\<lfloor>x + 1 / 2\<rfloor> = k" using assms by (intro floor_unique) simp_all
  then show ?thesis by simp
qed

lemma round2_eval:
  assumes "fl (x * 100) = Num y" and "of_int k \<le> y + 1 / 2" and "y + 1 / 2 < of_int k + 1"
    and "fl (of_int k / 100) = Num r"
  shows "round2 (Num x) = Num r"
  using assms(1,4) jsRound_eval[OF assms(2,3)] by (simp add: round2_def)

section \<open>Calendar readings\<close>

declare paymentLoop.simps [simp del]

declare normalizeDay.simps [simp del]

text \<open>
  The carry ends on a day that exists: every Date the setters make is a valid reading.
\<close>

lemma daysInMonth_bounds: "28 \<le> daysInMonth y m \<and> daysInMonth y m \<le> 31"
  by (simp add: daysInMonth_def)

lemma normalizeDay_valid:
  "0 \<le> m \<Longrightarrow> m < 12 \<Longrightarrow>
   (case normalizeDay y m d of
      (y', m', d') \<Rightarrow> 0 \<le> m' \<and> m' < 12 \<and> 1 \<le> d' \<and> d' \<le> daysInMonth y' m')"
proof (induction y m d rule: normalizeDay.induct)
  case (1 y m d)
  show ?case
  proof (cases "d < 1")
    case True
    show ?thesis
    proof (cases "m = 0")
      case m0: True
      have "normalizeDay y m d = normalizeDay (y - 1) 11 (d + 31)"
        using True m0 by (subst normalizeDay.simps) simp
      moreover have "case normalizeDay (y - 1) 11 (d + 31) of
          (y', m', d') \<Rightarrow> 0 \<le> m' \<and> m' < 12 \<and> 1 \<le> d' \<and> d' \<le> daysInMonth y' m'"
        using "1.IH"(1)[OF True m0] by simp
      ultimately show ?thesis by simp
    next
      case m0: False
      have "normalizeDay y m d = normalizeDay y (m - 1) (d + daysInMonth y (m - 1))"
        using True m0 by (subst normalizeDay.simps) simp
      moreover have "case normalizeDay y (m - 1) (d + daysInMonth y (m - 1)) of
          (y', m', d') \<Rightarrow> 0 \<le> m' \<and> m' < 12 \<and> 1 \<le> d' \<and> d' \<le> daysInMonth y' m'"
        using "1.IH"(2)[OF True m0] "1.prems" m0 by simp
      ultimately show ?thesis by simp
    qed
  next
    case False
    show ?thesis
    proof (cases "daysInMonth y m < d")
      case over: True
      show ?thesis
      proof (cases "m = 11")
        case m11: True
        have "normalizeDay y m d = normalizeDay (y + 1) 0 (d - 31)"
          using False over m11 by (subst normalizeDay.simps) simp
        moreover have "case normalizeDay (y + 1) 0 (d - 31) of
            (y', m', d') \<Rightarrow> 0 \<le> m' \<and> m' < 12 \<and> 1 \<le> d' \<and> d' \<le> daysInMonth y' m'"
          using "1.IH"(3)[OF False over m11] by simp
        ultimately show ?thesis by simp
      next
        case m11: False
        have "normalizeDay y m d = normalizeDay y (m + 1) (d - daysInMonth y m)"
          using False over m11 by (subst normalizeDay.simps) simp
        moreover have "case normalizeDay y (m + 1) (d - daysInMonth y m) of
            (y', m', d') \<Rightarrow> 0 \<le> m' \<and> m' < 12 \<and> 1 \<le> d' \<and> d' \<le> daysInMonth y' m'"
          using "1.IH"(4)[OF False over m11] "1.prems" m11 by simp
        ultimately show ?thesis by simp
      qed
    next
      case fits: False
      have "normalizeDay y m d = (y, m, d)"
        using False fits by (subst normalizeDay.simps) simp
      then show ?thesis using False fits "1.prems" by simp
    qed
  qed
qed

lemma makeDate_valid:
  "0 \<le> ms \<Longrightarrow> ms < 86400000 \<Longrightarrow> validDate (makeDate y m d ms)"
  using normalizeDay_valid[of "m mod 12" "y + m div 12" d]
  by (auto simp: makeDate_def validDate_def split: prod.splits)

lemma setMonth_valid: "validDate t \<Longrightarrow> validDate (setMonth t m)"
  unfolding setMonth_def by (rule makeDate_valid) (simp_all add: validDate_def)

section \<open>The loop of the schedule generator\<close>

lemma paymentLoop_step:
  "i < n \<Longrightarrow>
   paymentLoop aid n p iv cur i r acc h =
   paymentLoop aid n p iv cur (i + 1) (jsSub r (if i = n - 1 then r else p))
     (acc @ [loopEntry aid n p i r h]) (loopHeap iv cur h)"
  by (subst paymentLoop.simps)
     (simp add: Let_def loopEntry_def loopHeap_def newDate_def)

lemma paymentLoop_done:
  "\<not> i < n \<Longrightarrow> paymentLoop aid n p iv cur i r acc h = (acc, h)"
  by (subst paymentLoop.simps) simp

lemma paymentLoop_length:
  "length (fst (paymentLoop aid n p iv cur i r acc h)) = length acc + nat (n - i)"
proof (induction "nat (n - i)" arbitrary: i r acc h)
  case 0
  then show ?case by (simp add: paymentLoop_done)
next
  case (Suc k)
  then have lt: "i < n" and k: "k = nat (n - (i + 1))" by linarith+
  show ?case
    using Suc.hyps(1)[OF k] Suc.hyps(2) by (simp add: paymentLoop_step[OF lt])
qed

lemma loopHeap_nextRef: "nextRef (loopHeap iv cur h) = Suc (nextRef h)"
  by (simp add: loopHeap_def newDate_def writeDate_def)

lemma loopHeap_cur:
  "cur < nextRef h \<Longrightarrow> cells (loopHeap iv cur h) cur = advanceMonths iv (cells h cur)"
  by (simp add: loopHeap_def newDate_def writeDate_def)

lemma loopHeap_new:
  "cur < nextRef h \<Longrightarrow> cells (loopHeap iv cur h) (nextRef h) = cells h cur"
  by (simp add: loopHeap_def newDate_def writeDate_def)

lemma loopHeap_other:
  "r \<noteq> cur \<Longrightarrow> r \<noteq> nextRef h \<Longrightarrow> cells (loopHeap iv cur h) r = cells h r"
  by (simp add: loopHeap_def newDate_def writeDate_def)

lemma paymentLoop_heap:
  assumes "cur < nextRef h"
  shows "nextRef (snd (paymentLoop aid n p iv cur i r acc h)) = nextRef h + nat (n - i) \<and>
         cells (snd (paymentLoop aid n p iv cur i r acc h)) cur =
           (advanceMonths iv ^^ nat (n - i)) (cells h cur) \<and>
         (\<forall>x. x \<noteq> cur \<longrightarrow> x < nextRef h \<longrightarrow>
              cells (snd (paymentLoop aid n p iv cur i r acc h)) x = cells h x) \<and>
         (\<forall>k < nat (n - i).
              cells (snd (paymentLoop aid n p iv cur i r acc h)) (nextRef h + k) =
                (advanceMonths iv ^^ k) (cells h cur))"
  using assms
proof (induction "nat (n - i)" arbitrary: i r acc h)
  case 0
  then show ?case by (simp add: paymentLoop_done)
next
  case (Suc m)
  then have lt: "i < n" and m: "m = nat (n - (i + 1))" and sm: "nat (n - i) = Suc m"
    by linarith+
  let ?h1 = "loopHeap iv cur h"
  let ?H = "snd (paymentLoop aid n p iv cur i r acc h)"
  have c1: "cur < nextRef ?h1" using Suc.prems by (simp add: loopHeap_nextRef)
  have eq: "paymentLoop aid n p iv cur (i + 1) (jsSub r (if i = n - 1 then r else p))
              (acc @ [loopEntry aid n p i r h]) ?h1 = paymentLoop aid n p iv cur i r acc h"
    by (rule paymentLoop_step[OF lt, symmetric])
  note IH = Suc.hyps(1)[OF m c1, where r = "jsSub r (if i = n - 1 then r else p)"
      and acc = "acc @ [loopEntry aid n p i r h]", unfolded eq, folded m]
  have ih_a: "nextRef ?H = nextRef ?h1 + m" using IH by (rule conjunct1)
  have ih_b: "cells ?H cur = (advanceMonths iv ^^ m) (cells ?h1 cur)"
    using IH by blast
  have ih_c: "\<And>x. x \<noteq> cur \<Longrightarrow> x < nextRef ?h1 \<Longrightarrow> cells ?H x = cells ?h1 x"
    using IH by blast
  have ih_d: "\<And>k. k < m \<Longrightarrow> cells ?H (nextRef ?h1 + k) = (advanceMonths iv ^^ k) (cells ?h1 cur)"
    using IH by blast
  have a: "nextRef ?H = nextRef h + nat (n - i)"
    using ih_a sm by (simp add: loopHeap_nextRef)
  have b: "cells ?H cur = (advanceMonths iv ^^ nat (n - i)) (cells h cur)"
    using ih_b sm Suc.prems by (simp add: loopHeap_cur funpow_swap1)
  have c: "cells ?H x = cells h x" if "x \<noteq> cur" "x < nextRef h" for x
  proof -
    have "cells ?H x = cells ?h1 x" using ih_c[of x] that by (simp add: loopHeap_nextRef)
    then show ?thesis using that by (simp add: loopHeap_other)
  qed
  have d: "cells ?H (nextRef h + k) = (advanceMonths iv ^^ k) (cells h cur)"
    if "k < nat (n - i)" for k
  proof (cases k)
    case 0
    have "nextRef h \<noteq> cur" using Suc.prems by simp
    then have "cells ?H (nextRef h) = cells ?h1 (nextRef h)"
      using ih_c[of "nextRef h"] by (simp add: loopHeap_nextRef)
    then show ?thesis using 0 Suc.prems by (simp add: loopHeap_new)
  next
    case (Suc j)
    then have "j < m" using that sm by simp
    then have "cells ?H (nextRef ?h1 + j) = (advanceMonths iv ^^ j) (cells ?h1 cur)"
      by (rule ih_d)
    then show ?thesis
      using Suc Suc.prems by (simp add: loopHeap_nextRef loopHeap_cur funpow_swap1)
  qed
  show ?case
  proof (intro conjI allI impI)
    show "nextRef ?H = nextRef h + nat (n - i)" by (rule a)
    show "cells ?H cur = (advanceMonths iv ^^ nat (n - i)) (cells h cur)" by (rule b)
    show "cells ?H x = cells h x" if "x \<noteq> cur" "x < nextRef h" for x by (rule c[OF that])
    show "cells ?H (nextRef h + k) = (advanceMonths iv ^^ k) (cells h cur)"
      if "k < nat (n - i)" for k by (rule d[OF that])
  qed
qed

lemma paymentLoop_entries:
  "(\<forall>k < length acc. fst (paymentLoop aid n p iv cur i r acc h) ! k = acc ! k) \<and>
   (\<forall>k < nat (n - i).
      dueDate (fst (paymentLoop aid n p iv cur i r acc h) ! (length acc + k)) = nextRef h + k)"
proof (induction "nat (n - i)" arbitrary: i r acc h)
  case 0
  then show ?case by (simp add: paymentLoop_done)
next
  case (Suc m)
  then have lt: "i < n" and m: "m = nat (n - (i + 1))" and sm: "nat (n - i) = Suc m"
    by linarith+
  let ?S = "fst (paymentLoop aid n p iv cur i r acc h)"
  let ?acc1 = "acc @ [loopEntry aid n p i r h]"
  let ?h1 = "loopHeap iv cur h"
  have eq: "paymentLoop aid n p iv cur (i + 1) (jsSub r (if i = n - 1 then r else p)) ?acc1 ?h1 =
            paymentLoop aid n p iv cur i r acc h"
    by (rule paymentLoop_step[OF lt, symmetric])
  note IH = Suc.hyps(1)[OF m, where r = "jsSub r (if i = n - 1 then r else p)"
      and acc = ?acc1 and h = ?h1, unfolded eq, folded m]
  have ih_old: "\<And>k. k < length ?acc1 \<Longrightarrow> ?S ! k = ?acc1 ! k"
    using IH by blast
  have ih_new: "\<And>k. k < m \<Longrightarrow> dueDate (?S ! (length ?acc1 + k)) = nextRef ?h1 + k"
    using IH by blast
  have old: "?S ! k = acc ! k" if "k < length acc" for k
    using ih_old[of k] that by (simp add: nth_append)
  have here: "?S ! length acc = loopEntry aid n p i r h"
    using ih_old[of "length acc"] by simp
  have new: "dueDate (?S ! (length acc + k)) = nextRef h + k" if "k < nat (n - i)" for k
  proof (cases k)
    case 0
    then show ?thesis using here by (simp add: loopEntry_def)
  next
    case (Suc j)
    then have "j < m" using that sm by simp
    then have "dueDate (?S ! (length ?acc1 + j)) = nextRef ?h1 + j"
      by (rule ih_new)
    then show ?thesis using Suc by (simp add: loopHeap_nextRef)
  qed
  show ?case
  proof (intro conjI allI impI)
    show "?S ! k = acc ! k" if "k < length acc" for k by (rule old[OF that])
    show "dueDate (?S ! (length acc + k)) = nextRef h + k" if "k < nat (n - i)" for k
      by (rule new[OF that])
  qed
qed

lemma setMonth_no_carry:
  assumes "1 \<le> dateOfMonth d" "dateOfMonth d \<le> 28"
  shows "setMonth d m = d\<lparr>fullYear := fullYear d + m div 12, monthIndex := m mod 12\<rparr>"
proof -
  have "normalizeDay (fullYear d + m div 12) (m mod 12) (dateOfMonth d) =
        (fullYear d + m div 12, m mod 12, dateOfMonth d)"
    using assms by (subst normalizeDay.simps) (simp add: daysInMonth_def)
  then show ?thesis by (simp add: setMonth_def makeDate_def)
qed

lemma div12_split: "(a::int) div 12 + (a mod 12 + iv) div 12 = (a + iv) div 12"
proof -
  have "a + iv = (a mod 12 + iv) + 12 * (a div 12)" by simp
  then have "(a + iv) div 12 = ((a mod 12 + iv) + 12 * (a div 12)) div 12" by simp
  also have "\<dots> = a div 12 + (a mod 12 + iv) div 12" by (simp only: div_mult_self2)
  finally show ?thesis by simp
qed

lemma advanceMonths_iterate:
  assumes "1 \<le> dateOfMonth d" "dateOfMonth d \<le> 28" "0 \<le> monthIndex d" "monthIndex d < 12"
  shows "(advanceMonths iv ^^ k) (Some d) =
         Some (d\<lparr>fullYear := fullYear d + (monthIndex d + int k * iv) div 12,
                 monthIndex := (monthIndex d + int k * iv) mod 12\<rparr>)"
proof (induction k)
  case 0
  then show ?case using assms by simp
next
  case (Suc k)
  let ?a = "monthIndex d + int k * iv"
  let ?d' = "d\<lparr>fullYear := fullYear d + ?a div 12, monthIndex := ?a mod 12\<rparr>"
  have e: "monthIndex d + int (Suc k) * iv = ?a + iv" by (simp add: algebra_simps)
  have "(advanceMonths iv ^^ Suc k) (Some d) = advanceMonths iv (Some ?d')" using Suc by simp
  also have "\<dots> = Some (setMonth ?d' (?a mod 12 + iv))"
    by (simp add: advanceMonths_def getMonth_def)
  also have "setMonth ?d' (?a mod 12 + iv) =
             ?d'\<lparr>fullYear := fullYear ?d' + (?a mod 12 + iv) div 12,
                  monthIndex := (?a mod 12 + iv) mod 12\<rparr>"
    using assms by (intro setMonth_no_carry) simp_all
  also have "\<dots> = d\<lparr>fullYear := fullYear d + (?a div 12 + (?a mod 12 + iv) div 12),
                      monthIndex := (?a mod 12 + iv) mod 12\<rparr>"
    by simp
  also have "\<dots> = d\<lparr>fullYear := fullYear d + (?a + iv) div 12, monthIndex := (?a + iv) mod 12\<rparr>"
    by (simp only: div12_split mod_add_left_eq)
  finally show ?case unfolding e .
qed

lemma advanceMonths_invalid: "(advanceMonths iv ^^ k) None = None"
  by (induction k) (simp_all add: advanceMonths_def)

lemma generate_unfold:
  "totalPaymentsOf h a f = Some n \<Longrightarrow>
   generatePaymentSchedule h a f =
     paymentLoop (agreementId a) n (round2 (jsDiv (price a) (Num (of_int n))))
       (getIntervalMonths f) (nextRef h) 0 (price a) []
       (fst (newDate h (cells h (startDate a))))"
  by (cases "calculateDurationInMonths (cells h (startDate a)) (cells h (endDate a))")
     (auto simp: generatePaymentSchedule_def totalPaymentsOf_def Let_def newDate_def
        numberOf_def)

lemma generate_invalid:
  "totalPaymentsOf h a f = None \<Longrightarrow>
   generatePaymentSchedule h a f = ([], fst (newDate h (cells h (startDate a))))"
  by (cases "calculateDurationInMonths (cells h (startDate a)) (cells h (endDate a))")
     (auto simp: generatePaymentSchedule_def totalPaymentsOf_def Let_def)

lemma schedule_length:
  "length (fst (generatePaymentSchedule h a f)) = paymentCount h a f"
  by (cases "totalPaymentsOf h a f")
     (simp_all add: generate_unfold generate_invalid paymentLoop_length paymentCount_def)

lemma generate_heap:
  "nextRef (snd (generatePaymentSchedule h a f)) = nextRef h + 1 + paymentCount h a f \<and>
   (\<forall>x < nextRef h. cells (snd (generatePaymentSchedule h a f)) x = cells h x) \<and>
   (\<forall>k < paymentCount h a f.
      cells (snd (generatePaymentSchedule h a f)) (nextRef h + 1 + k) =
        (advanceMonths (getIntervalMonths f) ^^ k) (cells h (startDate a)))"
proof (cases "totalPaymentsOf h a f")
  case None
  then show ?thesis by (simp add: generate_invalid paymentCount_def newDate_def)
next
  case (Some n)
  let ?h1 = "fst (newDate h (cells h (startDate a)))"
  have pc: "paymentCount h a f = nat n" using Some by (simp add: paymentCount_def)
  have n1: "nextRef ?h1 = Suc (nextRef h)" by (simp add: newDate_def)
  have c1: "cells ?h1 (nextRef h) = cells h (startDate a)" by (simp add: newDate_def)
  have o1: "\<And>x. x < nextRef h \<Longrightarrow> cells ?h1 x = cells h x" by (simp add: newDate_def)
  have lt: "nextRef h < nextRef ?h1" by (simp add: n1)
  note L = paymentLoop_heap[OF lt, of "agreementId a" n
      "round2 (jsDiv (price a) (Num (of_int n)))" "getIntervalMonths f" 0 "price a" "[]",
      folded generate_unfold[OF Some]]
  show ?thesis
  proof (intro conjI allI impI)
    show "nextRef (snd (generatePaymentSchedule h a f)) = nextRef h + 1 + paymentCount h a f"
      using L n1 pc by simp
    show "cells (snd (generatePaymentSchedule h a f)) x = cells h x" if "x < nextRef h" for x
    proof -
      have "cells (snd (generatePaymentSchedule h a f)) x = cells ?h1 x"
        using L that n1 by simp
      then show ?thesis using o1[OF that] by simp
    qed
    show "cells (snd (generatePaymentSchedule h a f)) (nextRef h + 1 + k) =
          (advanceMonths (getIntervalMonths f) ^^ k) (cells h (startDate a))"
      if "k < paymentCount h a f" for k
    proof -
      have "cells (snd (generatePaymentSchedule h a f)) (nextRef ?h1 + k) =
            (advanceMonths (getIntervalMonths f) ^^ k) (cells ?h1 (nextRef h))"
        using L that pc by simp
      then show ?thesis using n1 c1 by simp
    qed
  qed
qed

lemma generate_refs:
  "k < length (fst (generatePaymentSchedule h a f)) \<Longrightarrow>
   dueDate (fst (generatePaymentSchedule h a f) ! k) = nextRef h + 1 + k"
proof (cases "totalPaymentsOf h a f")
  case None
  assume "k < length (fst (generatePaymentSchedule h a f))"
  with None show ?thesis by (simp add: generate_invalid)
next
  case (Some n)
  assume k: "k < length (fst (generatePaymentSchedule h a f))"
  let ?h1 = "fst (newDate h (cells h (startDate a)))"
  have n1: "nextRef ?h1 = Suc (nextRef h)" by (simp add: newDate_def)
  note E = paymentLoop_entries[of "[]" "agreementId a" n
      "round2 (jsDiv (price a) (Num (of_int n)))" "getIntervalMonths f" "nextRef h"
      0 "price a" ?h1, folded generate_unfold[OF Some]]
  from k Some have "k < nat n" by (simp add: schedule_length paymentCount_def)
  with E have "dueDate (fst (generatePaymentSchedule h a f) ! k) = nextRef ?h1 + k" by simp
  then show ?thesis using n1 by simp
qed

lemma generate_distinct: "distinct (map dueDate (fst (generatePaymentSchedule h a f)))"
proof -
  have "map dueDate (fst (generatePaymentSchedule h a f)) =
        map (\<lambda>k. nextRef h + 1 + k) [0 ..< length (fst (generatePaymentSchedule h a f))]"
    by (rule nth_equalityI) (simp_all add: generate_refs)
  then show ?thesis by (simp add: distinct_map inj_on_def)
qed

section \<open>Schedule sum\<close>

text \<open>
  C1. The claim: for every agreement and frequency the amounts of the schedule sum to the
  agreement's price. The code misses the case of a lease that starts and ends in the same
  calendar month: for 1 January 2025 to 31 January 2025 at price 100 the duration is 0 months,
  \<open>totalPayments\<close> is 0, the loop does not run, and the amounts sum to 0.
\<close>

theorem same_month_lease_sum:
  "price (testAgreement (Num 100)) = Num 100 \<and>
   jsSum (map amount (fst (generatePaymentSchedule
      (twoDates (dateAt 2025 0 1) (dateAt 2025 0 31)) (testAgreement (Num 100)) ''MONTHLY''))) =
     Num 0"
proof -
  have n: "totalPaymentsOf (twoDates (dateAt 2025 0 1) (dateAt 2025 0 31))
             (testAgreement (Num 100)) ''MONTHLY'' = Some 0"
    by (simp add: totalPaymentsOf_def testAgreement_def twoDates_def dateAt_def
        calculateDurationInMonths_def getFullYear_def getMonth_def getIntervalMonths_def)
  show ?thesis
    by (simp add: generate_unfold[OF n] paymentLoop_done jsSum_def) (simp add: testAgreement_def)
qed

text \<open>
  A schedule with payments need not sum to the price either. For a price of 1.70 over three
  monthly payments the amounts are 0.57, 0.57 and the double just below 0.56 that the two
  subtractions leave, and their sum, added up from 0 in doubles, is the double below 1.70.
\<close>

lemma fl_drift_price: "fl (17 / 10) = Num (7656119366529843 / 4503599627370496)"
  by (rule trans[OF fl_normal[where e = "-52" and m = 7656119366529843]]) (simp_all add: pow2_def)

lemma fl_drift_third: "fl (2552039788843281 / 4503599627370496) = Num (2552039788843281 / 4503599627370496)"
  by (rule trans[OF fl_normal[where e = "-53" and m = 5104079577686562]]) (simp_all add: pow2_def)

lemma fl_drift_third_cents: "fl (63800994721082025 / 1125899906842624) = Num (7975124340135253 / 140737488355328)"
  by (rule trans[OF fl_normal[where e = "-47" and m = 7975124340135253]]) (simp_all add: pow2_def)

lemma fl_drift_amount: "fl (57 / 100) = Num (5134103575202365 / 9007199254740992)"
  by (rule trans[OF fl_normal[where e = "-53" and m = 5134103575202365]]) (simp_all add: pow2_def)

lemma round2_drift_third: "round2 (Num (2552039788843281 / 4503599627370496)) = Num (5134103575202365 / 9007199254740992)"
  by (rule round2_eval[where y = "7975124340135253 / 140737488355328" and k = 57]) (simp_all add: fl_drift_third_cents fl_drift_amount)

lemma fl_drift_first_remainder: "fl (10178135157857321 / 9007199254740992) = Num (1272266894732165 / 1125899906842624)"
  by (rule trans[OF fl_tie_below[where e = "-52" and m = 5089067578928660]]) (simp_all add: pow2_def)

lemma fl_drift_second_remainder: "fl (5044031582654955 / 9007199254740992) = Num (5044031582654955 / 9007199254740992)"
  by (rule trans[OF fl_normal[where e = "-53" and m = 5044031582654955]]) (simp_all add: pow2_def)

lemma fl_drift_amount_fixed: "fl (5134103575202365 / 9007199254740992) = Num (5134103575202365 / 9007199254740992)"
  by (rule trans[OF fl_normal[where e = "-53" and m = 5134103575202365]]) (simp_all add: pow2_def)

lemma fl_drift_two_amounts: "fl (5134103575202365 / 4503599627370496) = Num (5134103575202365 / 4503599627370496)"
  by (rule trans[OF fl_normal[where e = "-52" and m = 5134103575202365]]) (simp_all add: pow2_def)

lemma fl_drift_sum: "fl (15312238733059685 / 9007199254740992) = Num (3828059683264921 / 2251799813685248)"
  by (rule trans[OF fl_tie_below[where e = "-52" and m = 7656119366529842]]) (simp_all add: pow2_def)

lemma fl_56_cents: "fl (14 / 25) = Num (1261007895663739 / 2251799813685248)"
  by (rule trans[OF fl_normal[where e = "-53" and m = 5044031582654956]]) (simp_all add: pow2_def)


lemma three_payment_drift:
  "map amount (fst (generatePaymentSchedule (twoDates (dateAt 2025 0 1) (dateAt 2025 3 1))
                      (testAgreement (fl (17 / 10))) ''MONTHLY'')) =
     [fl (57 / 100), fl (57 / 100), Num (5044031582654955 / 9007199254740992)] \<and>
   fl (56 / 100) \<noteq> Num (5044031582654955 / 9007199254740992) \<and>
   jsSum (map amount (fst (generatePaymentSchedule
      (twoDates (dateAt 2025 0 1) (dateAt 2025 3 1)) (testAgreement (fl (17 / 10)))
      ''MONTHLY''))) = Num (3828059683264921 / 2251799813685248) \<and>
   price (testAgreement (fl (17 / 10))) = Num (7656119366529843 / 4503599627370496)"
proof -
  let ?h = "twoDates (dateAt 2025 0 1) (dateAt 2025 3 1)"
  let ?a = "testAgreement (fl (17 / 10))"
  have n: "totalPaymentsOf ?h ?a ''MONTHLY'' = Some 3"
    by (simp add: totalPaymentsOf_def testAgreement_def twoDates_def dateAt_def
        calculateDurationInMonths_def getFullYear_def getMonth_def getIntervalMonths_def)
  have p: "price ?a = Num (7656119366529843 / 4503599627370496)"
    by (simp add: testAgreement_def fl_drift_price)
  have am: "map amount (fst (generatePaymentSchedule ?h ?a ''MONTHLY'')) =
      [Num (5134103575202365 / 9007199254740992), Num (5134103575202365 / 9007199254740992),
       Num (5044031582654955 / 9007199254740992)]"
    unfolding generate_unfold[OF n] p
    by (simp add: paymentLoop_step paymentLoop_done loopEntry_def jsSub_def fl_drift_third
        round2_drift_third fl_drift_first_remainder fl_drift_second_remainder)
  have s: "jsSum [Num (5134103575202365 / 9007199254740992),
                  Num (5134103575202365 / 9007199254740992),
                  Num (5044031582654955 / 9007199254740992)] =
           Num (3828059683264921 / 2251799813685248)"
    by (simp add: jsSum_def fl_drift_amount_fixed fl_drift_two_amounts fl_drift_sum)
  show ?thesis
    unfolding am s p by (simp add: fl_drift_amount fl_56_cents)
qed

section \<open>Unrecognised payment frequencies\<close>

text \<open>
  C9. For every payment frequency outside MONTHLY, QUARTERLY and ANNUALLY,
  \<open>getIntervalMonths\<close> returns 1, and \<open>generatePaymentSchedule\<close>, which has no rejecting
  branch, returns exactly the schedule and heap it returns for MONTHLY.
\<close>

theorem unknown_frequency_is_monthly:
  assumes "frequency \<notin> {''MONTHLY'', ''QUARTERLY'', ''ANNUALLY''}"
  shows "getIntervalMonths frequency = 1 \<and>
         generatePaymentSchedule h agreement frequency =
           generatePaymentSchedule h agreement ''MONTHLY''"
  using assms by (simp add: getIntervalMonths_def generatePaymentSchedule_def)

theorem unknown_frequency_is_monthly_witness:
  "''WEEKLY'' \<notin> {''MONTHLY'', ''QUARTERLY'', ''ANNUALLY''} \<and>
   getIntervalMonths ''WEEKLY'' = 1 \<and>
   generatePaymentSchedule (twoDates (dateAt 2025 0 1) (dateAt 2025 3 1))
     (testAgreement (Num 100)) ''WEEKLY'' =
   generatePaymentSchedule (twoDates (dateAt 2025 0 1) (dateAt 2025 3 1))
     (testAgreement (Num 100)) ''MONTHLY'' \<and>
   length (fst (generatePaymentSchedule (twoDates (dateAt 2025 0 1) (dateAt 2025 3 1))
                  (testAgreement (Num 100)) ''WEEKLY'')) = 3"
proof -
  have l: "length (fst (generatePaymentSchedule (twoDates (dateAt 2025 0 1) (dateAt 2025 3 1))
                          (testAgreement (Num 100)) ''MONTHLY'')) = 3"
    by (simp add: schedule_length paymentCount_def totalPaymentsOf_def testAgreement_def
        twoDates_def dateAt_def calculateDurationInMonths_def getFullYear_def getMonth_def
        getIntervalMonths_def)
  show ?thesis
    using unknown_frequency_is_monthly
      [of "''WEEKLY''" "twoDates (dateAt 2025 0 1) (dateAt 2025 3 1)" "testAgreement (Num 100)"]
      l
    by simp
qed

section \<open>Number of payments\<close>

lemma standard_price_unchanged:
  "calculateLeasingCost testConfig (Num 100) (Some (dateAt 2025 0 1)) (Some (dateAt 2025 0 31))
     ''STANDARD'' = Num 100"
proof -
  have r: "round2 (Num 100) = Num 100"
    by (rule round2_eval[where y = 10000 and k = 10000]) simp_all
  show ?thesis
    by (simp add: calculateLeasingCost_def calculateDurationInMonths_def numberOf_def
        getFullYear_def getMonth_def dateAt_def testConfig_def getProperty_def Let_def r)
qed

text \<open>
  C3. The claim: \<open>totalPayments\<close> is the ceiling of the month count over the interval with a
  minimum of 1, so a range whose ceiling is 0 gets one payment of the full amount. The code
  has the ceiling (\<open>schedule_length\<close>) and no minimum: the request for 1 January 2025 to
  31 January 2025 passes the validator, and the agreement the factory builds from it has
  price 100, \<open>totalPayments\<close> 0 and an empty schedule.
\<close>

theorem same_month_lease_has_no_payment:
  "validateCreateAgreementRequest testEnv
     (testRequest ''2025-01-01T00:00:00.000Z'' ''2025-01-31T00:00:00.000Z'') = Inr () \<and>
   (case createAgreementFromRequest testEnv mockServices testConfig ''LA-1''
           (testRequest ''2025-01-01T00:00:00.000Z'' ''2025-01-31T00:00:00.000Z'')
           emptyHeap mockWorld of
      (Inr a, h, w) \<Rightarrow>
        price a = Num 100 \<and> totalPaymentsOf h a ''MONTHLY'' = Some 0 \<and> paymentSchedule a = []
    | (Inl err, h, w) \<Rightarrow> False)"
proof -
  let ?rq = "testRequest ''2025-01-01T00:00:00.000Z'' ''2025-01-31T00:00:00.000Z''"
  have v: "validateCreateAgreementRequest testEnv ?rq = Inr ()"
    by code_simp
  have s: "dateParse testEnv (req_startDate ?rq) = Some (dateAt 2025 0 1)"
    by (simp add: testEnv_def testRequest_def)
  have e: "dateParse testEnv (req_endDate ?rq) = Some (dateAt 2025 0 31)"
    by (simp add: testEnv_def testRequest_def)
  have t: "getEmployeeType mockServices (req_employeeId ?rq) mockWorld =
           (Inr ''STANDARD'', mockWorld)"
    by (simp add: mockServices_def mockWorld_def testRequest_def)
  have p: "req_price ?rq = Num 100" by (simp add: testRequest_def)
  have f: "req_paymentFrequency ?rq = ''MONTHLY''" by (simp add: testRequest_def)
  have d: "calculateDurationInMonths (Some (dateAt 2025 0 1)) (Some (dateAt 2025 0 31)) = Some 0"
    by (simp add: calculateDurationInMonths_def getFullYear_def getMonth_def dateAt_def)
  have i: "getIntervalMonths ''MONTHLY'' = 1" by (simp add: getIntervalMonths_def)
  have c: "case createAgreementFromRequest testEnv mockServices testConfig ''LA-1'' ?rq
                  emptyHeap mockWorld of
      (Inr a, h, w) \<Rightarrow>
        price a = Num 100 \<and> totalPaymentsOf h a ''MONTHLY'' = Some 0 \<and> paymentSchedule a = []
    | (Inl err, h, w) \<Rightarrow> False"
    by (simp add: createAgreementFromRequest_def s e t p f standard_price_unchanged
        Let_def newDate_def emptyHeap_def generatePaymentSchedule_def
        totalPaymentsOf_def d i paymentLoop_done)
  show ?thesis using v c by (rule conjI)
qed

section \<open>Due dates\<close>

text \<open>
  C8 as stated fails where the day of the month is past the 28th: each step is a
  \<^verbatim>\<open>setMonth\<close> on the date the step before left, so a day that runs over the end of a
  month stays moved. From 31 January 2025 the third monthly due date is 3 April 2025, while
  31 January advanced by two months in one step is 31 March.
\<close>

theorem month_end_due_date_counterexample:
  "cells (snd (generatePaymentSchedule (twoDates (dateAt 2025 0 31) (dateAt 2025 3 30))
                 (testAgreement (Num 100)) ''MONTHLY''))
     (dueDate (fst (generatePaymentSchedule (twoDates (dateAt 2025 0 31) (dateAt 2025 3 30))
                      (testAgreement (Num 100)) ''MONTHLY'') ! 2)) = Some (dateAt 2025 3 3) \<and>
   cells (snd (generatePaymentSchedule (twoDates (dateAt 2025 0 31) (dateAt 2025 3 30))
                 (testAgreement (Num 100)) ''MONTHLY''))
     (dueDate (fst (generatePaymentSchedule (twoDates (dateAt 2025 0 31) (dateAt 2025 3 30))
                      (testAgreement (Num 100)) ''MONTHLY'') ! 2))
   \<noteq> Some (setMonth (dateAt 2025 0 31)
              (getMonth (dateAt 2025 0 31) + 2 * getIntervalMonths ''MONTHLY''))"
proof -
  let ?h = "twoDates (dateAt 2025 0 31) (dateAt 2025 3 30)"
  let ?a = "testAgreement (Num 100)"
  let ?S = "fst (generatePaymentSchedule ?h ?a ''MONTHLY'')"
  let ?H = "snd (generatePaymentSchedule ?h ?a ''MONTHLY'')"
  have pc: "paymentCount ?h ?a ''MONTHLY'' = 3"
    by (simp add: paymentCount_def totalPaymentsOf_def testAgreement_def
        twoDates_def dateAt_def calculateDurationInMonths_def getFullYear_def getMonth_def
        getIntervalMonths_def)
  have len: "length ?S = 3" by (simp add: schedule_length pc)
  have r: "dueDate (?S ! 2) = 5"
    using generate_refs[of 2 ?h ?a "''MONTHLY''"] len by (simp add: twoDates_def)
  have k: "(2::nat) < paymentCount ?h ?a ''MONTHLY''" by (simp add: pc)
  have "cells ?H (nextRef ?h + 1 + 2) =
        (advanceMonths (getIntervalMonths ''MONTHLY'') ^^ 2) (cells ?h (startDate ?a))"
    using generate_heap[of ?h ?a "''MONTHLY''"] k by blast
  then have c: "cells ?H 5 = (advanceMonths (getIntervalMonths ''MONTHLY'') ^^ 2)
                               (Some (dateAt 2025 0 31))"
    by (simp add: twoDates_def testAgreement_def)
  have v: "(advanceMonths (getIntervalMonths ''MONTHLY'') ^^ 2) (Some (dateAt 2025 0 31)) =
           Some (dateAt 2025 3 3)"
    by code_simp
  have w: "dateAt 2025 3 3 \<noteq> setMonth (dateAt 2025 0 31)
              (getMonth (dateAt 2025 0 31) + 2 * getIntervalMonths ''MONTHLY'')"
    by code_simp
  show ?thesis using w by (simp add: r c v)
qed

text \<open>
  C8, amended. Entry \<open>k\<close>'s \<open>dueDate\<close> is the start date advanced \<open>k\<close> times in succession by
  the interval; when the start day is at most the 28th this is the start date advanced by
  \<open>k\<close> times the interval in one step. Each \<open>dueDate\<close> is an object allocated by this
  call (its reference lies between the old and the new end of the heap), the references are
  pairwise distinct, no object that existed before the call is changed, writing to one
  entry's \<open>dueDate\<close> leaves every other entry's as it was, and from any state of the loop
  on, every object other than \<open>currentDate\<close> keeps its value to the end.
\<close>

theorem due_dates_stepwise_and_independent:
  "(let S = fst (generatePaymentSchedule h a f);
        H = snd (generatePaymentSchedule h a f);
        iv = getIntervalMonths f;
        s0 = cells h (startDate a)
    in (\<forall>k < length S.
          cells H (dueDate (S ! k)) = (advanceMonths iv ^^ k) s0 \<and>
          nextRef h < dueDate (S ! k) \<and> dueDate (S ! k) < nextRef H \<and>
          (\<forall>d. s0 = Some d \<and> 1 \<le> dateOfMonth d \<and> dateOfMonth d \<le> 28 \<and>
                0 \<le> monthIndex d \<and> monthIndex d < 12 \<longrightarrow>
             cells H (dueDate (S ! k)) = Some (setMonth d (getMonth d + int k * iv)))) \<and>
       distinct (map dueDate S) \<and>
       (\<forall>x < nextRef h. cells H x = cells h x) \<and>
       (\<forall>i < length S. \<forall>j < length S. i \<noteq> j \<longrightarrow>
          (\<forall>v. cells (writeDate H (dueDate (S ! i)) v) (dueDate (S ! j)) =
               cells H (dueDate (S ! j))))) \<and>
   (\<forall>cur i r acc hh aid n p iv x.
      cur < nextRef hh \<longrightarrow> x \<noteq> cur \<longrightarrow> x < nextRef hh \<longrightarrow>
        cells (snd (paymentLoop aid n p iv cur i r acc hh)) x = cells hh x)"
proof -
  let ?S = "fst (generatePaymentSchedule h a f)"
  let ?H = "snd (generatePaymentSchedule h a f)"
  let ?iv = "getIntervalMonths f"
  let ?s0 = "cells h (startDate a)"
  note G = generate_heap[of h a f]
  have len: "length ?S = paymentCount h a f" by (rule schedule_length)
  have val: "cells ?H (dueDate (?S ! k)) = (advanceMonths ?iv ^^ k) ?s0" if "k < length ?S" for k
    using G that len by (simp add: generate_refs)
  have fresh: "nextRef h < dueDate (?S ! k) \<and> dueDate (?S ! k) < nextRef ?H"
    if "k < length ?S" for k
    using G that len by (simp add: generate_refs)
  have closed: "cells ?H (dueDate (?S ! k)) = Some (setMonth d (getMonth d + int k * ?iv))"
    if "k < length ?S" and "?s0 = Some d" and "1 \<le> dateOfMonth d" "dateOfMonth d \<le> 28"
      "0 \<le> monthIndex d" "monthIndex d < 12" for k d
    using val[OF that(1)] that(2-)
    by (simp add: advanceMonths_iterate setMonth_no_carry getMonth_def)
  have frame: "cells ?H x = cells h x" if "x < nextRef h" for x
    using G that by simp
  have indep: "cells (writeDate ?H (dueDate (?S ! i)) v) (dueDate (?S ! j)) =
               cells ?H (dueDate (?S ! j))"
    if "i < length ?S" "j < length ?S" "i \<noteq> j" for i j v
    using that by (simp add: writeDate_def generate_refs)
  have loop: "cells (snd (paymentLoop aid n p iv cur i r acc hh)) x = cells hh x"
    if "cur < nextRef hh" "x \<noteq> cur" "x < nextRef hh" for cur i r acc hh aid n p iv x
    using paymentLoop_heap[OF that(1), of aid n p iv i r acc] that(2,3) by simp
  show ?thesis
    unfolding Let_def
    using val fresh closed frame indep loop generate_distinct[of h a f] by blast
qed

theorem due_dates_stepwise_and_independent_witness:
  "2 < length (fst (generatePaymentSchedule (twoDates (dateAt 2025 0 15) (dateAt 2025 3 15))
                      (testAgreement (Num 100)) ''MONTHLY'')) \<and>
   cells (snd (generatePaymentSchedule (twoDates (dateAt 2025 0 15) (dateAt 2025 3 15))
                 (testAgreement (Num 100)) ''MONTHLY''))
     (dueDate (fst (generatePaymentSchedule (twoDates (dateAt 2025 0 15) (dateAt 2025 3 15))
                      (testAgreement (Num 100)) ''MONTHLY'') ! 2)) = Some (dateAt 2025 2 15) \<and>
   cells (writeDate
            (snd (generatePaymentSchedule (twoDates (dateAt 2025 0 15) (dateAt 2025 3 15))
                    (testAgreement (Num 100)) ''MONTHLY''))
            (dueDate (fst (generatePaymentSchedule (twoDates (dateAt 2025 0 15) (dateAt 2025 3 15))
                      (testAgreement (Num 100)) ''MONTHLY'') ! 0))
            (Some (dateAt 1999 0 1)))
     (dueDate (fst (generatePaymentSchedule (twoDates (dateAt 2025 0 15) (dateAt 2025 3 15))
                      (testAgreement (Num 100)) ''MONTHLY'') ! 2)) = Some (dateAt 2025 2 15) \<and>
   cells (snd (generatePaymentSchedule (twoDates (dateAt 2025 0 15) (dateAt 2025 3 15))
                 (testAgreement (Num 100)) ''MONTHLY'')) 0 = Some (dateAt 2025 0 15)"
proof -
  let ?h = "twoDates (dateAt 2025 0 15) (dateAt 2025 3 15)"
  let ?a = "testAgreement (Num 100)"
  let ?S = "fst (generatePaymentSchedule ?h ?a ''MONTHLY'')"
  let ?H = "snd (generatePaymentSchedule ?h ?a ''MONTHLY'')"
  have len: "length ?S = 3"
    by (simp add: schedule_length paymentCount_def totalPaymentsOf_def testAgreement_def
        twoDates_def dateAt_def calculateDurationInMonths_def getFullYear_def getMonth_def
        getIntervalMonths_def)
  have s0: "cells ?h (startDate ?a) = Some (dateAt 2025 0 15)"
    by (simp add: twoDates_def testAgreement_def)
  have nr: "nextRef ?h = 2" by (simp add: twoDates_def)
  have c0: "cells ?h 0 = Some (dateAt 2025 0 15)" by (simp add: twoDates_def)
  have sm: "setMonth (dateAt 2025 0 15)
              (getMonth (dateAt 2025 0 15) + int 2 * getIntervalMonths ''MONTHLY'') =
            dateAt 2025 2 15"
    by code_simp
  note T = due_dates_stepwise_and_independent[of ?h ?a "''MONTHLY''", unfolded Let_def s0]
  have d: "Some (dateAt 2025 0 15) = Some (dateAt 2025 0 15) \<and>
           1 \<le> dateOfMonth (dateAt 2025 0 15) \<and> dateOfMonth (dateAt 2025 0 15) \<le> 28 \<and>
           0 \<le> monthIndex (dateAt 2025 0 15) \<and> monthIndex (dateAt 2025 0 15) < 12"
    by (simp add: dateAt_def)
  have k2: "(2::nat) < length ?S" and k0: "(0::nat) < length ?S" by (simp_all add: len)
  from T k2 d have v2: "cells ?H (dueDate (?S ! 2)) =
      Some (setMonth (dateAt 2025 0 15)
        (getMonth (dateAt 2025 0 15) + int 2 * getIntervalMonths ''MONTHLY''))"
    by blast
  from T k0 k2 have w: "cells (writeDate ?H (dueDate (?S ! 0)) (Some (dateAt 1999 0 1)))
                          (dueDate (?S ! 2)) =
      cells ?H (dueDate (?S ! 2))"
    by (metis zero_neq_numeral)
  from T nr have f0: "cells ?H 0 = cells ?h 0" by simp
  show ?thesis using k2 v2 w f0 sm c0 by simp
qed

section \<open>Pricing\<close>

text \<open>
  The doubles of the literals and of the products in the examples below, each with the
  exponent of its last place and its mantissa, and the value \<open>round2\<close> takes on them.
\<close>

lemma fl_nine_tenths: "fl (9 / 10) = Num (8106479329266893 / 9007199254740992)"
  by (rule trans[OF fl_normal[where e = "-53" and m = 8106479329266893]]) (simp_all add: pow2_def)

lemma fl_four_fifths: "fl (4 / 5) = Num (3602879701896397 / 4503599627370496)"
  by (rule trans[OF fl_normal[where e = "-53" and m = 7205759403792794]]) (simp_all add: pow2_def)

lemma fl_1000_premium: "fl (1013309916158361625 / 1125899906842624) = Num 900"
  by (rule trans[OF fl_normal[where e = "-43" and m = 7916483719987200]]) (simp_all add: pow2_def)

lemma fl_1000_long_term: "fl (450359962737049625 / 562949953421312) = Num 800"
  by (rule trans[OF fl_normal[where e = "-43" and m = 7036874417766400]]) (simp_all add: pow2_def)

lemma fl_800_premium: "fl (202661983231672325 / 281474976710656) = Num 720"
  by (rule trans[OF fl_normal[where e = "-43" and m = 6333186975989760]]) (simp_all add: pow2_def)

lemma round2_100: "round2 (Num 100) = Num 100"
  by (rule round2_eval[where y = "10000" and k = 10000]) simp_all

lemma round2_150: "round2 (Num 150) = Num 150"
  by (rule round2_eval[where y = "15000" and k = 15000]) simp_all

lemma round2_720: "round2 (Num 720) = Num 720"
  by (rule round2_eval[where y = "72000" and k = 72000]) simp_all

lemma round2_800: "round2 (Num 800) = Num 800"
  by (rule round2_eval[where y = "80000" and k = 80000]) simp_all

lemma round2_900: "round2 (Num 900) = Num 900"
  by (rule round2_eval[where y = "90000" and k = 90000]) simp_all

lemma round2_1000: "round2 (Num 1000) = Num 1000"
  by (rule round2_eval[where y = "100000" and k = 100000]) simp_all


















text \<open>What the lookup of the source yields is \<open>lookedUpMultiplier\<close>.\<close>

lemma employee_multiplier_lookup:
  "toNumber (orDefault (getProperty (employeeDiscounts config) tier) (Num 1)) =
     lookedUpMultiplier config tier"
proof (cases "employeeDiscounts config tier")
  case None
  then show ?thesis by (simp add: getProperty_def lookedUpMultiplier_def)
next
  case (Some v)
  then show ?thesis by (cases v) (auto simp: getProperty_def lookedUpMultiplier_def)
qed

lemma long_term_multiplier:
  "(if jsLessEq (longTermThreshold config) (numberOf (calculateDurationInMonths s e))
    then longTermDiscount config else Num 1) = specLongTermMultiplier config s e"
  by (cases s; cases e; cases "longTermThreshold config")
     (simp_all add: specLongTermMultiplier_def calculateDurationInMonths_def numberOf_def
        getFullYear_def getMonth_def Let_def)

lemma leasing_cost_unfold:
  "calculateLeasingCost config basePrice s e tier =
     round2 (jsMul (jsMul basePrice (specLongTermMultiplier config s e))
               (lookedUpMultiplier config tier))"
  by (simp add: calculateLeasingCost_def Let_def employee_multiplier_lookup
      long_term_multiplier)

lemma test_multipliers:
  "specLongTermMultiplier testConfig (Some (dateAt 2025 6 1)) (Some (dateAt 2025 11 1)) = Num 1"
  "specLongTermMultiplier testConfig (Some (dateAt 2025 0 1)) (Some (dateAt 2026 5 1)) =
     Num (3602879701896397 / 4503599627370496)"
  "lookedUpMultiplier testConfig ''STANDARD'' = Num 1"
  "lookedUpMultiplier testConfig ''PREMIUM'' = Num (8106479329266893 / 9007199254740992)"
  "lookedUpMultiplier testConfig ''VIP'' = Num (3602879701896397 / 4503599627370496)"
  "lookedUpMultiplier testConfig ''GOLD'' = Num 1"
  "lookedUpMultiplier testConfig ''constructor'' = NaN"
  by (simp_all add: specLongTermMultiplier_def lookedUpMultiplier_def testConfig_def dateAt_def
      fl_nine_tenths fl_four_fifths objectPrototypeProperties_def)

text \<open>The five priced examples of the specification, and an employee type the table lacks.\<close>

lemma spec_examples:
  "calculateLeasingCost testConfig (Num 1000) (Some (dateAt 2025 6 1)) (Some (dateAt 2025 11 1))
     ''STANDARD'' = Num 1000"
  "calculateLeasingCost testConfig (Num 1000) (Some (dateAt 2025 6 1)) (Some (dateAt 2025 11 1))
     ''PREMIUM'' = Num 900"
  "calculateLeasingCost testConfig (Num 1000) (Some (dateAt 2025 6 1)) (Some (dateAt 2025 11 1))
     ''VIP'' = Num 800"
  "calculateLeasingCost testConfig (Num 1000) (Some (dateAt 2025 0 1)) (Some (dateAt 2026 5 1))
     ''STANDARD'' = Num 800"
  "calculateLeasingCost testConfig (Num 1000) (Some (dateAt 2025 0 1)) (Some (dateAt 2026 5 1))
     ''PREMIUM'' = Num 720"
  "calculateLeasingCost testConfig (Num 1000) (Some (dateAt 2025 0 1)) (Some (dateAt 2026 5 1))
     ''GOLD'' = Num 800"
  by (simp_all add: leasing_cost_unfold test_multipliers fl_1000_premium fl_1000_long_term
      fl_800_premium round2_1000 round2_900 round2_800 round2_720)




section \<open>The five-year limit\<close>

text \<open>
  After the first two range checks the validator answers \<^verbatim>\<open>DURATION_EXCEEDED\<close> exactly
  when the end date lies after the current time moved five years on.
\<close>

lemma duration_exceeded_iff:
  assumes "\<not> dateLess s (startOfDay now)" and "\<not> dateLessEq e s"
  shows "validateDateRange now s e =
           Inl (ValidationError ''Lease duration cannot exceed 5 years'' ''endDate''
                  ''DURATION_EXCEEDED'') \<longleftrightarrow>
         dateLess (setFullYear now (getFullYear now + 5)) e"
  using assms by (simp add: validateDateRange_def Let_def)


text \<open>
  C4. The claim: \<^verbatim>\<open>DURATION_EXCEEDED\<close> is raised if and only if the end date is more than
  five years after the start date. The code measures from the current time instead. On
  15 June 2025 a four-year lease from 1 January 2027 to 1 January 2031 is rejected with
  ``Lease duration cannot exceed 5 years'', and at noon of that day a lease from that
  day's midnight to 15 June 2030, 01:00, five years and one hour long, is accepted.
\<close>

theorem five_year_limit_counts_from_today:
  "validateDateRange (dateAt 2025 5 15) (dateAt 2027 0 1) (dateAt 2031 0 1) =
     Inl (ValidationError ''Lease duration cannot exceed 5 years'' ''endDate''
            ''DURATION_EXCEEDED'') \<and>
   \<not> dateLess (setFullYear (dateAt 2027 0 1) (getFullYear (dateAt 2027 0 1) + 5))
        (dateAt 2031 0 1) \<and>
   validateDateRange ((dateAt 2025 5 15)\<lparr>msOfDay := 43200000\<rparr>) (dateAt 2025 5 15)
     ((dateAt 2030 5 15)\<lparr>msOfDay := 3600000\<rparr>) = Inr () \<and>
   dateLess (setFullYear (dateAt 2025 5 15) (getFullYear (dateAt 2025 5 15) + 5))
     ((dateAt 2030 5 15)\<lparr>msOfDay := 3600000\<rparr>)"
  by code_simp


section \<open>Metadata\<close>

lemma request_validator_ignores_metadata:
  "validateCreateAgreementRequest env (request\<lparr>req_metadata := md\<rparr>) =
     validateCreateAgreementRequest env request"
  by (simp add: validateCreateAgreementRequest_def)

text \<open>
  C5. The claim: a request that passes checks 1 to 7 fails with \<^verbatim>\<open>SIZE_EXCEEDED\<close> or
  \<^verbatim>\<open>PROHIBITED_CONTENT\<close> for oversized or script-carrying metadata. The request validator
  never calls \<open>validateMetadata\<close>: its result does not depend on the metadata at all, and
  it accepts a request whose metadata \<open>validateMetadata\<close> rejects, for either reason.
\<close>

theorem metadata_not_validated:
  "validateCreateAgreementRequest env (request\<lparr>req_metadata := md\<rparr>) =
     validateCreateAgreementRequest env request \<and>
   validateMetadata (Some scriptMetadata) =
     Inl (ValidationError ''Metadata contains prohibited content'' ''metadata''
            ''PROHIBITED_CONTENT'') \<and>
   validateCreateAgreementRequest testEnv
     ((testRequest ''2025-07-01T00:00:00.000Z'' ''2025-12-01T00:00:00.000Z'')
        \<lparr>req_metadata := Some scriptMetadata\<rparr>) = Inr () \<and>
   validateMetadata (Some (replicate 10001 CHR ''x'')) =
     Inl (ValidationError ''Metadata size cannot exceed 10KB'' ''metadata'' ''SIZE_EXCEEDED'') \<and>
   validateCreateAgreementRequest testEnv
     ((testRequest ''2025-07-01T00:00:00.000Z'' ''2025-12-01T00:00:00.000Z'')
        \<lparr>req_metadata := Some (replicate 10001 CHR ''x'')\<rparr>) = Inr ()"
proof (intro conjI)
  show "validateCreateAgreementRequest env (request\<lparr>req_metadata := md\<rparr>) =
        validateCreateAgreementRequest env request"
    by (rule request_validator_ignores_metadata)
  show "validateMetadata (Some scriptMetadata) =
     Inl (ValidationError ''Metadata contains prohibited content'' ''metadata''
            ''PROHIBITED_CONTENT'')"
    by code_simp
  have ok: "validateCreateAgreementRequest testEnv
     (testRequest ''2025-07-01T00:00:00.000Z'' ''2025-12-01T00:00:00.000Z'') = Inr ()"
    by code_simp
  show "validateCreateAgreementRequest testEnv
     ((testRequest ''2025-07-01T00:00:00.000Z'' ''2025-12-01T00:00:00.000Z'')
        \<lparr>req_metadata := Some scriptMetadata\<rparr>) = Inr ()"
    using ok by (simp only: request_validator_ignores_metadata)
  show "validateMetadata (Some (replicate 10001 CHR ''x'')) =
     Inl (ValidationError ''Metadata size cannot exceed 10KB'' ''metadata'' ''SIZE_EXCEEDED'')"
    by (simp add: validateMetadata_def)
  show "validateCreateAgreementRequest testEnv
     ((testRequest ''2025-07-01T00:00:00.000Z'' ''2025-12-01T00:00:00.000Z'')
        \<lparr>req_metadata := Some (replicate 10001 CHR ''x'')\<rparr>) = Inr ()"
    using ok by (simp only: request_validator_ignores_metadata)
qed

section \<open>Rollback\<close>

lemma readMessage_hasMessage: "hasMessage e \<Longrightarrow> readMessage e = Inr (messageOf e)"
  by (cases e) simp_all

lemma readMessage_nullish:
  "\<not> hasMessage e \<Longrightarrow> \<exists>t. readMessage e = Inl (TypeError t)"
  by (cases e) simp_all

text \<open>
  As long as every rejection carries a message, the rollback loop calls every closure it is
  given, in the order given, whatever each one returns, and logs one line per failure.
\<close>

lemma rollbackLoop_tracing:
  assumes "\<And>c e. c \<in> set cs \<Longrightarrow> snd c = Inl e \<Longrightarrow> hasMessage e"
  shows "rollbackLoop cid (map tracing cs) tr lg =
     (None, tr @ map fst cs, lg @ map (rollbackFailed cid) (failureMessages (map snd cs)))"
  using assms
proof (induction cs arbitrary: tr lg)
  case Nil
  then show ?case by (simp add: failureMessages_def)
next
  case (Cons c cs)
  have rest: "hasMessage e" if "c' \<in> set cs" "snd c' = Inl e" for c' e
    using Cons.prems[of c' e] that by simp
  show ?case
  proof (cases "snd c")
    case (Inl e)
    then have "hasMessage e" using Cons.prems[of c e] by simp
    then have "readMessage e = Inr (messageOf e)" by (rule readMessage_hasMessage)
    then show ?thesis
      using Inl Cons.IH[OF rest, where tr = "tr @ [fst c]"
          and lg = "lg @ [rollbackFailed cid (messageOf e)]"]
      by (simp add: tracing_def failureMessages_def rollbackFailed_def)
  next
    case (Inr u)
    then show ?thesis
      using Cons.IH[OF rest, where tr = "tr @ [fst c]" and lg = lg]
      by (simp add: tracing_def failureMessages_def)
  qed
qed

text \<open>
  If the billing record cannot be created after the reservation and the first save went
  through, and \<open>releaseItem\<close> resolves or rejects with a value that carries a message, the
  transaction ends with the billing error itself, and the world it leaves is the one
  \<open>releaseItem\<close> makes of the world the billing call left; a failing release is logged and
  changes nothing else.
\<close>

lemma billing_failure_rollback:
  assumes "reserveItem svc (itemId a) w = (Inr reserved, w1)"
    and "repositorySave svc (a\<lparr>status := PENDING\<rparr>) w1 = (Inr saved, w2)"
    and "createBillingRecord svc saved w2 = (Inl billingError, w3)"
    and "\<And>e. fst (releaseItem svc (itemId a) w3) = Inl e \<Longrightarrow> hasMessage e"
  shows "executeAgreementTransaction svc u a cid w lg =
           (Inl billingError, snd (releaseItem svc (itemId a) w3),
            (case fst (releaseItem svc (itemId a) w3) of
               Inl e \<Rightarrow> lg @ [rollbackFailed cid (messageOf e)]
             | Inr x \<Rightarrow> lg))"
proof (cases "releaseItem svc (itemId a) w3")
  case (Pair r w4)
  show ?thesis
  proof (cases r)
    case (Inl e)
    with Pair assms(4) have "readMessage e = Inr (messageOf e)"
      by (intro readMessage_hasMessage) simp
    with Pair Inl assms(1-3) show ?thesis
      by (simp add: executeAgreementTransaction_def transactionSteps_def compensate_def
          rollbackFailed_def)
  next
    case (Inr x)
    with Pair assms(1-3) show ?thesis
      by (simp add: executeAgreementTransaction_def transactionSteps_def compensate_def)
  qed
qed

text \<open>
  With the collaborators of the test suite, whose \<open>releaseItem\<close> resolves: after the failed
  billing the caller gets the billing error and the item is available again.
\<close>

lemma billing_failure_releases_item:
  "fst (executeAgreementTransaction billingFails 0 (testAgreement (Num 100)) ''c-1''
          mockWorld []) = Inl (Error ''Billing failed'') \<and>
   fst (checkAvailability billingFails ''item1''
          (fst (snd (executeAgreementTransaction billingFails 0 (testAgreement (Num 100))
                       ''c-1'' mockWorld [])))) = Inr True"
  by (simp add: executeAgreementTransaction_def transactionSteps_def compensate_def
      billingFails_def mockServices_def mockWorld_def testAgreement_def)

text \<open>
  C2. The claim: after a failed billing step the release compensator runs, compensators
  run in reverse registration order, a compensator's own failure is caught and does not stop
  the remaining ones, and the billing error is re-thrown unchanged. The handler of a failed
  compensator reads \<^verbatim>\<open>rollbackError.message\<close>. When \<open>releaseItem\<close> rejects with \<^verbatim>\<open>null\<close>
  this read throws inside the \<^verbatim>\<open>catch\<close> block: the caller gets a \<^verbatim>\<open>TypeError\<close> in place
  of the billing error, and nothing is logged. In the \<^verbatim>\<open>catch\<close> block run on three
  registered compensators of which the second rejects with \<^verbatim>\<open>null\<close>, the third and the
  second are called and the first never is.
\<close>

theorem null_rollback_rejection_replaces_billing_error:
  "fst (createBillingRecord releaseRejectsNull ((testAgreement (Num 100))\<lparr>status := PENDING\<rparr>)
          mockWorld) = Inl (Error ''Billing failed'') \<and>
   fst (releaseItem releaseRejectsNull ''item1'' mockWorld) = Inl ThrownNull \<and>
   (case executeAgreementTransaction releaseRejectsNull 0 (testAgreement (Num 100)) ''c-1''
           mockWorld [] of
      (Inl e, w, lg) \<Rightarrow>
        e = TypeError ''Cannot read properties of null (reading 'message')'' \<and> e \<noteq> Error ''Billing failed'' \<and>
        lg = []
    | (Inr a, w, lg) \<Rightarrow> False) \<and>
   compensate ''c-1'' (map tracing [(1::nat, Inr ()), (2, Inl ThrownNull), (3, Inr ())])
     (Error ''Billing failed'') [] [] =
     (Inl (TypeError ''Cannot read properties of null (reading 'message')''), [3, 2], [])"
  by (simp add: executeAgreementTransaction_def transactionSteps_def compensate_def
      releaseRejectsNull_def billingFails_def mockServices_def mockWorld_def
      testAgreement_def tracing_def)

section \<open>Notification failure\<close>

text \<open>
  When the notification rejects with a value that carries a message, the error is logged
  as a warning and nothing else happens on its account: the activation save is called next,
  with status \<open>ACTIVE\<close>, its result is returned and its world is the final one, so no
  compensator ran.
\<close>

lemma notification_failure_logged:
  assumes "reserveItem svc (itemId a) w = (Inr reserved, w1)"
    and "repositorySave svc (a\<lparr>status := PENDING\<rparr>) w1 = (Inr saved, w2)"
    and "createBillingRecord svc saved w2 = (Inr billingId, w3)"
    and "sendAgreementCreated svc (employeeId saved) (agreementId saved) w3 =
           (Inl notificationError, w4)"
    and "hasMessage notificationError"
    and "repositorySave svc (saved\<lparr>status := ACTIVE, updatedAt := u\<rparr>) w4 =
           (Inr finalAgreement, w5)"
  shows "executeAgreementTransaction svc u a cid w lg =
           (Inr finalAgreement, w5,
            lg @ [\<lparr>level = Info, message = ''Billing record created'',
                   logContext = [(''agreementId'', agreementId saved),
                                 (''billingId'', billingId)]\<rparr>,
                  \<lparr>level = Warn, message = ''Notification failed but agreement created'',
                   logContext = [(''correlationId'', cid),
                                 (''error'', messageOf notificationError)]\<rparr>,
                  \<lparr>level = Info, message = ''Agreement processed successfully'',
                   logContext = [(''correlationId'', cid),
                                 (''agreementId'', agreementId finalAgreement)]\<rparr>])"
  using assms(1-4,6) readMessage_hasMessage[OF assms(5)]
  by (simp add: executeAgreementTransaction_def transactionSteps_def)

text \<open>
  With the collaborators of the test suite and a notification service that rejects with an
  \<^verbatim>\<open>Error\<close>: the agreement comes back \<open>ACTIVE\<close>, the item stays reserved, and the
  warning is logged between the two informational lines.
\<close>

lemma notification_error_is_suppressed:
  "case executeAgreementTransaction notificationFails 7 (testAgreement (Num 100)) ''c-2''
          mockWorld [] of
     (Inr a, w, lg) \<Rightarrow>
       status a = ACTIVE \<and> updatedAt a = 7 \<and> reservedItems w = {''item1''} \<and>
       map level lg = [Info, Warn, Info]
   | (Inl e, w, lg) \<Rightarrow> False"
  by (simp add: executeAgreementTransaction_def transactionSteps_def notificationFails_def
      mockServices_def mockWorld_def testAgreement_def)

text \<open>
  When it rejects with \<^verbatim>\<open>null\<close> or \<^verbatim>\<open>undefined\<close>, the handler throws: the transaction
  ends in the \<^verbatim>\<open>catch\<close> block, with the release of the item as the one compensator and the
  \<^verbatim>\<open>TypeError\<close> as the error, and the activation save is never called.
\<close>

lemma nullish_notification_rejection_compensates:
  assumes "reserveItem svc (itemId a) w = (Inr reserved, w1)"
    and "repositorySave svc (a\<lparr>status := PENDING\<rparr>) w1 = (Inr saved, w2)"
    and "createBillingRecord svc saved w2 = (Inr billingId, w3)"
    and "sendAgreementCreated svc (employeeId saved) (agreementId saved) w3 =
           (Inl notificationError, w4)"
    and "readMessage notificationError = Inl thrown"
  shows "executeAgreementTransaction svc u a cid w lg =
           compensate cid [releaseItem svc (itemId a)] thrown w4
             (lg @ [\<lparr>level = Info, message = ''Billing record created'',
                     logContext = [(''agreementId'', agreementId saved),
                                   (''billingId'', billingId)]\<rparr>])"
  using assms
  by (simp add: executeAgreementTransaction_def transactionSteps_def)

text \<open>
  C7. The claim: a failure of the notification step is caught and logged, never reaches the
  caller and triggers no compensator; the agreement is returned \<open>ACTIVE\<close>. The handler
  reads \<^verbatim>\<open>notificationError.message\<close>. When the notification service rejects with
  \<^verbatim>\<open>null\<close> this read throws inside the \<^verbatim>\<open>try\<close> block: the caller gets a \<^verbatim>\<open>TypeError\<close>,
  the compensator has released the item, no warning is logged, and the agreement stays
  stored as \<open>PENDING\<close> with its billing record made.
\<close>

theorem null_notification_rejection_aborts:
  "fst (sendAgreementCreated notificationRejectsNull ''emp1'' ''test-id'' mockWorld) =
     Inl ThrownNull \<and>
   (case executeAgreementTransaction notificationRejectsNull 7 (testAgreement (Num 100))
           ''c-2'' mockWorld [] of
      (Inl e, w, lg) \<Rightarrow>
        e = TypeError ''Cannot read properties of null (reading 'message')'' \<and> reservedItems w = {} \<and>
        map_option status (agreements w ''test-id'') = Some PENDING \<and>
        billingRecords w = [(''test-id'', ''bill-test-id'')] \<and>
        map level lg = [Info]
    | (Inr a, w, lg) \<Rightarrow> False)"
  by (simp add: executeAgreementTransaction_def transactionSteps_def compensate_def
      notificationRejectsNull_def mockServices_def mockWorld_def testAgreement_def)

section \<open>Price ceiling\<close>

lemma leasing_cost_ignores_ceiling:
  "calculateLeasingCost (config\<lparr>maxPrice := m\<rparr>) p s e t = calculateLeasingCost config p s e t"
  by (simp add: calculateLeasingCost_def)

text \<open>The price of the agreement the factory builds is the computed cost.\<close>

lemma factory_price:
  assumes "getEmployeeType svc (req_employeeId request) w = (Inr t, w1)"
  shows "case createAgreementFromRequest env svc config newId request h w of
           (Inr a, h', w') \<Rightarrow>
             price a = calculateLeasingCost config (req_price request)
                         (dateParse env (req_startDate request))
                         (dateParse env (req_endDate request)) t
         | (Inl err, h', w') \<Rightarrow> False"
  using assms by (simp add: createAgreementFromRequest_def Let_def)

text \<open>
  C10 as stated fails when an earlier rule fires: a request over the ceiling by an employee
  of another company is answered with \<^verbatim>\<open>INVALID_EMPLOYEE\<close>, not \<^verbatim>\<open>PRICE_EXCEEDED\<close>.
\<close>

theorem invalid_employee_masks_price_counterexample:
  "jsLess (maxPrice testConfig)
     (req_price ((testRequest ''2025-07-01T00:00:00.000Z'' ''2025-12-01T00:00:00.000Z'')
                  \<lparr>req_price := Num 2000000, req_companyId := ''wrong-company''\<rparr>)) \<and>
   fst (validateBusinessRules testEnv mockServices testConfig
          ((testRequest ''2025-07-01T00:00:00.000Z'' ''2025-12-01T00:00:00.000Z'')
             \<lparr>req_price := Num 2000000, req_companyId := ''wrong-company''\<rparr>) mockWorld) =
     Inl (BusinessRuleError ''Employee does not exist or does not belong to specified company''
            ''EMPLOYEE_VALIDATION'' ''INVALID_EMPLOYEE'') \<and>
   validateCreateAgreementRequest testEnv
     ((testRequest ''2025-07-01T00:00:00.000Z'' ''2025-12-01T00:00:00.000Z'')
        \<lparr>req_companyId := ''wrong-company''\<rparr>) = Inr () \<and>
   jsLess (maxPrice (testConfig\<lparr>maxPrice := Num 50\<rparr>))
     (req_price ((testRequest ''2025-07-01T00:00:00.000Z'' ''2025-12-01T00:00:00.000Z'')
                  \<lparr>req_companyId := ''wrong-company''\<rparr>)) \<and>
   fst (validateBusinessRules testEnv mockServices (testConfig\<lparr>maxPrice := Num 50\<rparr>)
          ((testRequest ''2025-07-01T00:00:00.000Z'' ''2025-12-01T00:00:00.000Z'')
             \<lparr>req_companyId := ''wrong-company''\<rparr>) mockWorld) =
     Inl (BusinessRuleError ''Employee does not exist or does not belong to specified company''
            ''EMPLOYEE_VALIDATION'' ''INVALID_EMPLOYEE'')"
proof -
  have v: "validateCreateAgreementRequest testEnv
     ((testRequest ''2025-07-01T00:00:00.000Z'' ''2025-12-01T00:00:00.000Z'')
        \<lparr>req_companyId := ''wrong-company''\<rparr>) = Inr ()"
    by code_simp
  show ?thesis
    using v
    by (simp add: validateBusinessRules_def testRequest_def mockServices_def mockWorld_def
        testConfig_def)
qed

text \<open>
  C10, amended. When the two collaborator calls resolve, \<open>validateBusinessRules\<close> throws
  \<^verbatim>\<open>PRICE_EXCEEDED\<close> if and only if the employee is valid, the item is available and the
  request price exceeds \<open>maxPrice\<close>; with the first two and a price within the ceiling it
  returns normally. The factory does not read the ceiling: its result is the same for
  every value of \<open>maxPrice\<close>, so the discounted price is never compared with it.
\<close>

theorem price_ceiling_on_request_price_only:
  assumes "validateEmployee svc (req_employeeId request) (req_companyId request) w =
             (Inr isValidEmployee, w1)"
    and "checkAvailability svc (req_itemId request) w1 = (Inr isItemAvailable, w2)"
  shows "(fst (validateBusinessRules env svc config request w) = Inl (priceExceeded env config)
            \<longleftrightarrow> isValidEmployee \<and> isItemAvailable \<and>
                jsLess (maxPrice config) (req_price request)) \<and>
         (isValidEmployee \<and> isItemAvailable \<and> \<not> jsLess (maxPrice config) (req_price request)
            \<longrightarrow> validateBusinessRules env svc config request w = (Inr (), w2)) \<and>
         (\<forall>m newId h w'.
            createAgreementFromRequest env svc (config\<lparr>maxPrice := m\<rparr>) newId request h w' =
            createAgreementFromRequest env svc config newId request h w')"
proof (intro conjI allI)
  show "fst (validateBusinessRules env svc config request w) = Inl (priceExceeded env config)
            \<longleftrightarrow> isValidEmployee \<and> isItemAvailable \<and>
                jsLess (maxPrice config) (req_price request)"
    using assms by (simp add: validateBusinessRules_def priceExceeded_def)
  show "isValidEmployee \<and> isItemAvailable \<and> \<not> jsLess (maxPrice config) (req_price request)
            \<longrightarrow> validateBusinessRules env svc config request w = (Inr (), w2)"
    using assms by (simp add: validateBusinessRules_def)
  show "createAgreementFromRequest env svc (config\<lparr>maxPrice := m\<rparr>) newId request h w' =
        createAgreementFromRequest env svc config newId request h w'" for m newId h w'
    unfolding createAgreementFromRequest_def leasing_cost_ignores_ceiling by (rule refl)
qed

theorem price_ceiling_on_request_price_only_witness:
  "jsLess (maxPrice testConfig)
     (req_price ((testRequest ''2025-07-01T00:00:00.000Z'' ''2025-12-01T00:00:00.000Z'')
                  \<lparr>req_price := Num 2000000\<rparr>)) \<and>
   fst (validateBusinessRules testEnv mockServices testConfig
          ((testRequest ''2025-07-01T00:00:00.000Z'' ''2025-12-01T00:00:00.000Z'')
             \<lparr>req_price := Num 2000000\<rparr>) mockWorld) =
     Inl (BusinessRuleError ''Price exceeds maximum allowed amount of 1000000''
            ''PRICE_LIMIT'' ''PRICE_EXCEEDED'') \<and>
   validateBusinessRules testEnv mockServices (testConfig\<lparr>maxPrice := Num 100\<rparr>)
     (testRequest ''2025-07-01T00:00:00.000Z'' ''2025-12-01T00:00:00.000Z'') mockWorld =
     (Inr (), mockWorld) \<and>
   createAgreementFromRequest testEnv mockServices
     (testConfig\<lparr>employeeDiscounts := [''STANDARD'' \<mapsto> Num (3 / 2)], maxPrice := Num 100\<rparr>)
     ''LA-1'' (testRequest ''2025-07-01T00:00:00.000Z'' ''2025-12-01T00:00:00.000Z'')
     emptyHeap mockWorld =
   createAgreementFromRequest testEnv mockServices
     (testConfig\<lparr>employeeDiscounts := [''STANDARD'' \<mapsto> Num (3 / 2)]\<rparr>) ''LA-1''
     (testRequest ''2025-07-01T00:00:00.000Z'' ''2025-12-01T00:00:00.000Z'')
     emptyHeap mockWorld \<and>
   (case createAgreementFromRequest testEnv mockServices
           (testConfig\<lparr>employeeDiscounts := [''STANDARD'' \<mapsto> Num (3 / 2)],
              maxPrice := Num 100\<rparr>) ''LA-1''
           (testRequest ''2025-07-01T00:00:00.000Z'' ''2025-12-01T00:00:00.000Z'')
           emptyHeap mockWorld of
      (Inr a, h, w) \<Rightarrow> price a = Num 150
    | (Inl err, h, w) \<Rightarrow> False)"
proof -
  let ?big = "(testRequest ''2025-07-01T00:00:00.000Z'' ''2025-12-01T00:00:00.000Z'')
                \<lparr>req_price := Num 2000000\<rparr>"
  let ?ok = "testRequest ''2025-07-01T00:00:00.000Z'' ''2025-12-01T00:00:00.000Z''"
  let ?cfg = "testConfig\<lparr>employeeDiscounts := [''STANDARD'' \<mapsto> Num (3 / 2)]\<rparr>"
  have ve: "validateEmployee mockServices (req_employeeId ?big) (req_companyId ?big) mockWorld =
            (Inr True, mockWorld)"
    by (simp add: mockServices_def mockWorld_def testRequest_def)
  have av: "checkAvailability mockServices (req_itemId ?big) mockWorld = (Inr True, mockWorld)"
    by (simp add: mockServices_def mockWorld_def testRequest_def)
  have ve': "validateEmployee mockServices (req_employeeId ?ok) (req_companyId ?ok) mockWorld =
            (Inr True, mockWorld)"
    by (simp add: mockServices_def mockWorld_def testRequest_def)
  have av': "checkAvailability mockServices (req_itemId ?ok) mockWorld = (Inr True, mockWorld)"
    by (simp add: mockServices_def mockWorld_def testRequest_def)
  note T1 = price_ceiling_on_request_price_only[OF ve av, of testEnv testConfig]
  note T2 = price_ceiling_on_request_price_only[OF ve' av', of testEnv
      "testConfig\<lparr>maxPrice := Num 100\<rparr>"]
  note T3 = price_ceiling_on_request_price_only[OF ve' av', of testEnv ?cfg,
      THEN conjunct2, THEN conjunct2, rule_format, of "Num 100" "''LA-1''" emptyHeap mockWorld]
  have a: "jsLess (maxPrice testConfig) (req_price ?big)"
    by (simp add: testConfig_def)
  have b: "fst (validateBusinessRules testEnv mockServices testConfig ?big mockWorld) =
           Inl (BusinessRuleError ''Price exceeds maximum allowed amount of 1000000''
                  ''PRICE_LIMIT'' ''PRICE_EXCEEDED'')"
    using T1[THEN conjunct1] a by (simp add: priceExceeded_def testEnv_def testConfig_def)
  have c: "validateBusinessRules testEnv mockServices (testConfig\<lparr>maxPrice := Num 100\<rparr>) ?ok
             mockWorld = (Inr (), mockWorld)"
    using T2[THEN conjunct2, THEN conjunct1] by (simp add: testRequest_def)
  have t: "getEmployeeType mockServices (req_employeeId ?ok) mockWorld =
           (Inr ''STANDARD'', mockWorld)"
    by (simp add: mockServices_def mockWorld_def testRequest_def)
  have cost: "calculateLeasingCost ?cfg (req_price ?ok) (dateParse testEnv (req_startDate ?ok))
                (dateParse testEnv (req_endDate ?ok)) ''STANDARD'' = Num 150"
    by (simp add: leasing_cost_unfold specLongTermMultiplier_def lookedUpMultiplier_def
        testConfig_def testRequest_def testEnv_def dateAt_def round2_150)
  have d: "case createAgreementFromRequest testEnv mockServices ?cfg ''LA-1'' ?ok emptyHeap
                  mockWorld of
             (Inr a, h, w) \<Rightarrow> price a = Num 150
           | (Inl err, h, w) \<Rightarrow> False"
    using factory_price[OF t, where env = testEnv and config = ?cfg and newId = "''LA-1''"
        and h = emptyHeap]
    by (simp only: cost)
  show ?thesis
    by (intro conjI) (rule a, rule b, rule c, rule T3, simp only: T3 d)
qed

end
